theory Spec2Isabelle
  imports Main
begin

section \<open>process.py: file ids, pairing, the three processing modes and the dispatcher\<close>

text \<open>
  The script \<^verbatim>\<open>process.py\<close> is glue code around the modules \<^verbatim>\<open>file_io\<close>,
  \<^verbatim>\<open>label_io\<close> and \<^verbatim>\<open>feature_io\<close>. The model below embeds the four functions of
  the script and its \<^verbatim>\<open>__main__\<close> block. Everything the script does to the outside is a
  transition on an explicit \<open>world\<close>: the directory listings, the files on disk, a log of
  the calls made to the outside, and the allocator of Python object identities. Every
  exception is a value \<open>Inl e\<close>; the world that comes back with it is the world at the
  moment the exception was raised.
\<close>

subsection \<open>Strings and paths\<close>

type_synonym path = string

text \<open>\<^verbatim>\<open>s.startswith(t)\<close> and \<^verbatim>\<open>s.endswith(t)\<close> of Python's \<^verbatim>\<open>str\<close>.\<close>

definition startswith :: "string \<Rightarrow> string \<Rightarrow> bool" where
  "startswith s t = (take (length t) s = t)"

definition endswith :: "string \<Rightarrow> string \<Rightarrow> bool" where
  "endswith s t = (length t \<le> length s \<and> drop (length s - length t) s = t)"

text \<open>
  \<^verbatim>\<open>os.path.join(a, b)\<close> with two components, as \<^verbatim>\<open>posixpath.join\<close> computes it: an
  absolute \<open>b\<close> replaces \<open>a\<close>; no separator is added after an empty \<open>a\<close> or after an
  \<open>a\<close> that already ends in one.
\<close>

definition path_join :: "path \<Rightarrow> string \<Rightarrow> path" where
  "path_join a b =
     (if startswith b ''/'' then b
      else if a = [] \<or> endswith a ''/'' then a @ b
      else a @ ''/'' @ b)"

subsection \<open>Errors, values and the world\<close>

datatype error =
    ValueError string
  | OSError path
  | ExternalError string

text \<open>
  The calls the script makes to the outside, in the order it makes them. A call is
  logged when it is made, whether it then succeeds or raises.
\<close>

datatype event =
    EvListdir path
  | EvLoadTxt path
  | EvLabel path bool
  | EvWav path
  | EvSaveProto path
  | EvSaveTxt path
  | EvSaveBin path

record world =
  listing :: "path \<rightharpoonup> string list"
  files :: "path \<rightharpoonup> string"
  writable :: "path \<Rightarrow> bool"
  trace :: "event list"
  next_obj :: nat

text \<open>
  \<open>listing w d\<close> is what \<^verbatim>\<open>os.listdir(d)\<close> returns (\<open>None\<close>: it raises). The script
  lists directories only before its first write, so the listing is the one of the
  initial disk. \<open>files w p\<close> is the content of the file at \<open>p\<close>; \<open>writable w p\<close> says
  whether a file can be created or replaced at \<open>p\<close>.
\<close>

type_synonym 'a result = "(error + 'a) \<times> world"

definition emit :: "event \<Rightarrow> world \<Rightarrow> world" where
  "emit ev w = w\<lparr>trace := trace w @ [ev]\<rparr>"

text \<open>
  The values the script holds in \<open>file_ids\<close>: a list of strings, or the lazy object
  that \<^verbatim>\<open>map(...)\<close> returns, known by its identity and by the items it yields when
  iterated. The script is read as Python 3, where \<^verbatim>\<open>filter\<close> and \<^verbatim>\<open>map\<close> build such
  objects and not lists.
\<close>

datatype pyval =
    PyList "string list"
  | MapObj nat "string list"

fun iter :: "pyval \<Rightarrow> string list" where
  "iter (PyList xs) = xs"
| "iter (MapObj a xs) = xs"

text \<open>
  \<^verbatim>\<open>a != b\<close>: lists compare element by element; a \<^verbatim>\<open>map\<close> object defines no
  comparison, so Python falls back to identity.
\<close>

fun py_ne :: "pyval \<Rightarrow> pyval \<Rightarrow> bool" where
  "py_ne (PyList xs) (PyList ys) = (xs \<noteq> ys)"
| "py_ne (MapObj a xs) (MapObj b ys) = (a \<noteq> b)"
| "py_ne (PyList xs) (MapObj b ys) = True"
| "py_ne (MapObj a xs) (PyList ys) = True"

datatype ('b, 'f) pyvalue =
    VLabel 'b
  | VInt int
  | VFeat 'f

subsection \<open>The collaborators\<close>

text \<open>
  \<^verbatim>\<open>label_io.Label\<close>, \<^verbatim>\<open>feature_io.Wav\<close> and the encoders of \<^verbatim>\<open>file_io\<close> are not part
  of the script: they are parameters. A constructor reads the disk as it is when it is
  called; the methods work on the object it returned. Each of them may raise.
\<close>

record ('l, 'w, 'b, 'f) collab =
  Label :: "path \<Rightarrow> bool \<Rightarrow> (path \<rightharpoonup> string) \<Rightarrow> error + 'l"
  binarise :: "'l \<Rightarrow> string \<Rightarrow> error + 'b"
  count_frames :: "'l \<Rightarrow> error + int"
  Wav :: "path \<Rightarrow> (path \<rightharpoonup> string) \<Rightarrow> error + 'w"
  extract_features :: "'w \<Rightarrow> error + ('f \<times> 'f \<times> 'f)"
  encode_proto :: "(string \<rightharpoonup> ('b, 'f) pyvalue) \<Rightarrow> string"
  encode_txt :: "('b, 'f) pyvalue \<Rightarrow> string"
  encode_bin :: "('b, 'f) pyvalue \<Rightarrow> string"

definition listdir :: "path \<Rightarrow> world \<Rightarrow> (string list) result" where
  "listdir d w =
     (case listing w d of
        None \<Rightarrow> (Inl (OSError d), emit (EvListdir d) w)
      | Some names \<Rightarrow> (Inr names, emit (EvListdir d) w))"

text \<open>
  Modelled from the spec: \<^verbatim>\<open>label_io.load_txt\<close> is not in the source. The spec has it
  read the file as newline-delimited text, one id per line, in file order, and fail with
  an I/O error when the file cannot be read.
\<close>

fun split_lines :: "string \<Rightarrow> string list" where
  "split_lines [] = []"
| "split_lines (c # cs) =
     (if c = CHR 0x0A then [] # split_lines cs
      else (case split_lines cs of [] \<Rightarrow> [[c]] | l # ls \<Rightarrow> (c # l) # ls))"

definition load_txt :: "path \<Rightarrow> world \<Rightarrow> (string list) result" where
  "load_txt p w =
     (case files w p of
        None \<Rightarrow> (Inl (OSError p), emit (EvLoadTxt p) w)
      | Some s \<Rightarrow> (Inr (split_lines s), emit (EvLoadTxt p) w))"

definition new_Label ::
  "('l, 'w, 'b, 'f) collab \<Rightarrow> path \<Rightarrow> bool \<Rightarrow> world \<Rightarrow> 'l result" where
  "new_Label c p state_level w = (Label c p state_level (files w), emit (EvLabel p state_level) w)"

definition new_Wav :: "('l, 'w, 'b, 'f) collab \<Rightarrow> path \<Rightarrow> world \<Rightarrow> 'w result" where
  "new_Wav c p w = (Wav c p (files w), emit (EvWav p) w)"

text \<open>
  Modelled from the spec: \<^verbatim>\<open>file_io.save_proto\<close>, \<^verbatim>\<open>save_txt\<close> and \<^verbatim>\<open>save_bin\<close> are not
  in the source. The spec has each write its value to the one file at the given path
  (a structured record, plain text, a raw binary blob), or fail with an I/O error; a
  write that fails leaves the disk as it was.
\<close>

definition write_file :: "path \<Rightarrow> string \<Rightarrow> world \<Rightarrow> unit result" where
  "write_file p s w =
     (if writable w p then (Inr (), w\<lparr>files := (files w)(p \<mapsto> s)\<rparr>)
      else (Inl (OSError p), w))"

definition save_proto ::
  "('l, 'w, 'b, 'f) collab \<Rightarrow> (string \<rightharpoonup> ('b, 'f) pyvalue) \<Rightarrow> path \<Rightarrow> world \<Rightarrow> unit result" where
  "save_proto c features p w = write_file p (encode_proto c features) (emit (EvSaveProto p) w)"

definition save_txt ::
  "('l, 'w, 'b, 'f) collab \<Rightarrow> ('b, 'f) pyvalue \<Rightarrow> path \<Rightarrow> world \<Rightarrow> unit result" where
  "save_txt c v p w = write_file p (encode_txt c v) (emit (EvSaveTxt p) w)"

definition save_bin ::
  "('l, 'w, 'b, 'f) collab \<Rightarrow> ('b, 'f) pyvalue \<Rightarrow> path \<Rightarrow> world \<Rightarrow> unit result" where
  "save_bin c v p w = write_file p (encode_bin c v) (emit (EvSaveBin p) w)"

subsection \<open>get_file_ids\<close>

text \<open>
  Without an id list, \<^verbatim>\<open>os.listdir(dir)\<close> runs at once; \<^verbatim>\<open>filter\<close> and \<^verbatim>\<open>map\<close> then each
  allocate a lazy object (the \<^verbatim>\<open>map\<close> object is the one returned). The slice
  \<^verbatim>\<open>x[:-len('.lab')]\<close> drops the last four characters.
\<close>

definition get_file_ids :: "path \<Rightarrow> path option \<Rightarrow> world \<Rightarrow> pyval result" where
  "get_file_ids dir id_list w =
     (case id_list of
        None \<Rightarrow>
          (case listdir dir w of
             (Inl e, w1) \<Rightarrow> (Inl e, w1)
           | (Inr names, w1) \<Rightarrow>
               (let kept = filter (\<lambda>f. endswith f ''.lab'') names;
                    a = next_obj w1
                in (Inr (MapObj (a + 1) (map (\<lambda>x. take (length x - length ''.lab'') x) kept)),
                    w1\<lparr>next_obj := a + 2\<rparr>)))
      | Some p \<Rightarrow>
          (case load_txt p w of
             (Inl e, w1) \<Rightarrow> (Inl e, w1)
           | (Inr ids, w1) \<Rightarrow> (Inr (PyList ids), w1)))"

subsection \<open>The loop over the ids\<close>

text \<open>
  \<^verbatim>\<open>for file_id in file_ids: body\<close>. An exception in the body ends the loop: nothing
  in the script catches it.
\<close>

fun for_each :: "(string \<Rightarrow> world \<Rightarrow> unit result) \<Rightarrow> string list \<Rightarrow> world \<Rightarrow> unit result" where
  "for_each body [] w = (Inr (), w)"
| "for_each body (x # xs) w =
     (case body x w of
        (Inl e, w1) \<Rightarrow> (Inl e, w1)
      | (Inr u, w1) \<Rightarrow> for_each body xs w1)"

subsection \<open>process_files (combined mode)\<close>

definition process_files_body ::
  "('l, 'w, 'b, 'f) collab \<Rightarrow> path \<Rightarrow> path \<Rightarrow> path \<Rightarrow> bool \<Rightarrow> string \<Rightarrow> world \<Rightarrow> unit result" where
  "process_files_body c lab_dir wav_dir out_dir state_level file_id w =
     (let lab_path = path_join lab_dir (file_id @ ''.lab'') in
      case new_Label c lab_path state_level w of
        (Inl e, w1) \<Rightarrow> (Inl e, w1)
      | (Inr label, w1) \<Rightarrow>
     (let wav_path = path_join wav_dir (file_id @ ''.wav'') in
      case new_Wav c wav_path w1 of
        (Inl e, w2) \<Rightarrow> (Inl e, w2)
      | (Inr wav, w2) \<Rightarrow>
     (case binarise c label '''' of
        Inl e \<Rightarrow> (Inl e, w2)
      | Inr binary_label \<Rightarrow>
     (case count_frames c label of
        Inl e \<Rightarrow> (Inl e, w2)
      | Inr duration \<Rightarrow>
     (case extract_features c wav of
        Inl e \<Rightarrow> (Inl e, w2)
      | Inr (f0, mgc, bap) \<Rightarrow>
     (let features = [''lab'' \<mapsto> VLabel binary_label,
                      ''duration'' \<mapsto> VInt duration,
                      ''f0'' \<mapsto> VFeat f0,
                      ''mgc'' \<mapsto> VFeat mgc,
                      ''bap'' \<mapsto> VFeat bap];
          feature_path = path_join out_dir (file_id @ ''.proto'')
      in save_proto c features feature_path w2))))))"

definition process_files ::
  "('l, 'w, 'b, 'f) collab \<Rightarrow> path \<Rightarrow> path \<Rightarrow> path option \<Rightarrow> path \<Rightarrow> bool \<Rightarrow> world \<Rightarrow> unit result" where
  "process_files c lab_dir wav_dir id_list out_dir state_level w =
     (case get_file_ids lab_dir id_list w of
        (Inl e, w1) \<Rightarrow> (Inl e, w1)
      | (Inr file_ids, w1) \<Rightarrow>
     (case get_file_ids wav_dir id_list w1 of
        (Inl e, w2) \<Rightarrow> (Inl e, w2)
      | (Inr file_ids', w2) \<Rightarrow>
     (if py_ne file_ids file_ids'
      then (Inl (ValueError
              ''Please provide id_list, or ensure that wav_dir and lab_dir contain the same files.''), w2)
      else for_each (process_files_body c lab_dir wav_dir out_dir state_level) (iter file_ids) w2)))"

subsection \<open>process_lab_files (label-only mode)\<close>

definition process_lab_files_body ::
  "('l, 'w, 'b, 'f) collab \<Rightarrow> path \<Rightarrow> path \<Rightarrow> bool \<Rightarrow> string \<Rightarrow> world \<Rightarrow> unit result" where
  "process_lab_files_body c lab_dir out_dir state_level file_id w =
     (let lab_path = path_join lab_dir (file_id @ ''.lab'') in
      case new_Label c lab_path state_level w of
        (Inl e, w1) \<Rightarrow> (Inl e, w1)
      | (Inr label, w1) \<Rightarrow>
     (case count_frames c label of
        Inl e \<Rightarrow> (Inl e, w1)
      | Inr duration \<Rightarrow>
     (let duration_path = path_join out_dir (file_id @ ''.dur'') in
      case save_txt c (VInt duration) duration_path w1 of
        (Inl e, w2) \<Rightarrow> (Inl e, w2)
      | (Inr u, w2) \<Rightarrow>
     (case binarise c label '''' of
        Inl e \<Rightarrow> (Inl e, w2)
      | Inr binary_label \<Rightarrow>
     (let binary_label_path = path_join out_dir (file_id @ ''.lab'')
      in save_bin c (VLabel binary_label) binary_label_path w2)))))"

definition process_lab_files ::
  "('l, 'w, 'b, 'f) collab \<Rightarrow> path \<Rightarrow> path option \<Rightarrow> path \<Rightarrow> bool \<Rightarrow> world \<Rightarrow> unit result" where
  "process_lab_files c lab_dir id_list out_dir state_level w =
     (case get_file_ids lab_dir id_list w of
        (Inl e, w1) \<Rightarrow> (Inl e, w1)
      | (Inr file_ids, w1) \<Rightarrow>
          for_each (process_lab_files_body c lab_dir out_dir state_level) (iter file_ids) w1)"

subsection \<open>process_wav_files (waveform-only mode)\<close>

definition process_wav_files_body ::
  "('l, 'w, 'b, 'f) collab \<Rightarrow> path \<Rightarrow> path \<Rightarrow> string \<Rightarrow> world \<Rightarrow> unit result" where
  "process_wav_files_body c wav_dir out_dir file_id w =
     (let wav_path = path_join wav_dir (file_id @ ''.wav'') in
      case new_Wav c wav_path w of
        (Inl e, w1) \<Rightarrow> (Inl e, w1)
      | (Inr wav, w1) \<Rightarrow>
     (case extract_features c wav of
        Inl e \<Rightarrow> (Inl e, w1)
      | Inr (f0, mgc, bap) \<Rightarrow>
     (let feature_path = path_join out_dir file_id in
      case save_bin c (VFeat f0) (feature_path @ ''.f0'') w1 of
        (Inl e, w2) \<Rightarrow> (Inl e, w2)
      | (Inr u, w2) \<Rightarrow>
     (case save_bin c (VFeat mgc) (feature_path @ ''.mgc'') w2 of
        (Inl e, w3) \<Rightarrow> (Inl e, w3)
      | (Inr u, w3) \<Rightarrow> save_bin c (VFeat bap) (feature_path @ ''.bap'') w3))))"

definition process_wav_files ::
  "('l, 'w, 'b, 'f) collab \<Rightarrow> path \<Rightarrow> path option \<Rightarrow> path \<Rightarrow> world \<Rightarrow> unit result" where
  "process_wav_files c wav_dir id_list out_dir w =
     (case get_file_ids wav_dir id_list w of
        (Inl e, w1) \<Rightarrow> (Inl e, w1)
      | (Inr file_ids, w1) \<Rightarrow>
          for_each (process_wav_files_body c wav_dir out_dir) (iter file_ids) w1)"

subsection \<open>The dispatcher\<close>

text \<open>
  The parsed command line. \<^verbatim>\<open>--lab_dir\<close>, \<^verbatim>\<open>--wav_dir\<close> and \<^verbatim>\<open>--id_list\<close> default to
  \<^verbatim>\<open>None\<close>; \<^verbatim>\<open>--out_dir\<close> is required.
\<close>

record args =
  args_lab_dir :: "path option"
  args_wav_dir :: "path option"
  args_id_list :: "path option"
  args_out_dir :: path
  args_state_level :: bool

text \<open>
  The test \<^verbatim>\<open>if args.lab_dir\<close> is Python's truth value of an optional string: \<^verbatim>\<open>None\<close>
  and the empty string are false.
\<close>

definition truthy :: "string option \<Rightarrow> bool" where
  "truthy d = (case d of None \<Rightarrow> False | Some s \<Rightarrow> s \<noteq> [])"

definition main :: "('l, 'w, 'b, 'f) collab \<Rightarrow> args \<Rightarrow> world \<Rightarrow> unit result" where
  "main c a w =
     (if truthy (args_lab_dir a) \<and> truthy (args_wav_dir a) then
        process_files c (the (args_lab_dir a)) (the (args_wav_dir a)) (args_id_list a) (args_out_dir a) (args_state_level a) w
      else if truthy (args_lab_dir a) then
        process_lab_files c (the (args_lab_dir a)) (args_id_list a) (args_out_dir a) (args_state_level a) w
      else if truthy (args_wav_dir a) then
        process_wav_files c (the (args_wav_dir a)) (args_id_list a) (args_out_dir a) w
      else (Inr (), w))"

subsection \<open>What the specification says of one id, in each mode\<close>

text \<open>
  \<open>stepwise R ids w w'\<close>: the world goes from \<open>w\<close> to \<open>w'\<close> in one \<open>R\<close>-step per id,
  in the order of \<open>ids\<close>.
\<close>

fun stepwise :: "(string \<Rightarrow> world \<Rightarrow> world \<Rightarrow> bool) \<Rightarrow> string list \<Rightarrow> world \<Rightarrow> world \<Rightarrow> bool" where
  "stepwise R [] w w' = (w' = w)"
| "stepwise R (x # xs) w w' = (\<exists>w1. R x w w1 \<and> stepwise R xs w1 w')"

text \<open>
  Combined mode, in the spec's words: load the label from \<open>{lab_dir}/{id}.lab\<close> and the
  waveform from \<open>{wav_dir}/{id}.wav\<close>, compute the binary label, the duration and the
  three feature sequences, and write one record with the five fields to
  \<open>{out_dir}/{id}.proto\<close>. A path \<open>{d}/{name}\<close> of the spec is \<open>path_join d name\<close>.
  The step is possible when the two loads and the three computations succeed on the
  disk as it is and the record can be written; it then changes the disk at that one
  path, makes three calls to the outside, and leaves the rest of the world alone.
\<close>

definition combined_step ::
  "('l, 'w, 'b, 'f) collab \<Rightarrow> path \<Rightarrow> path \<Rightarrow> path \<Rightarrow> bool \<Rightarrow> string \<Rightarrow> world \<Rightarrow> world \<Rightarrow> bool" where
  "combined_step c lab_dir wav_dir out_dir state_level file_id s s' =
     (\<exists>label wav b d f0 mgc bap features.
        Label c (path_join lab_dir (file_id @ ''.lab'')) state_level (files s) = Inr label \<and>
        Wav c (path_join wav_dir (file_id @ ''.wav'')) (files s) = Inr wav \<and>
        binarise c label '''' = Inr b \<and>
        count_frames c label = Inr d \<and>
        extract_features c wav = Inr (f0, mgc, bap) \<and>
        dom features = {''lab'', ''duration'', ''f0'', ''mgc'', ''bap''} \<and>
        features ''lab'' = Some (VLabel b) \<and>
        features ''duration'' = Some (VInt d) \<and>
        features ''f0'' = Some (VFeat f0) \<and>
        features ''mgc'' = Some (VFeat mgc) \<and>
        features ''bap'' = Some (VFeat bap) \<and>
        writable s (path_join out_dir (file_id @ ''.proto'')) \<and>
        s' = s\<lparr>files := (files s)(path_join out_dir (file_id @ ''.proto'') \<mapsto> encode_proto c features),
                 trace := trace s @
                   [EvLabel (path_join lab_dir (file_id @ ''.lab'')) state_level,
                    EvWav (path_join wav_dir (file_id @ ''.wav'')),
                    EvSaveProto (path_join out_dir (file_id @ ''.proto''))]\<rparr>)"

text \<open>
  Label-only mode: the frame count goes as text to \<open>{out_dir}/{id}.dur\<close>, then the
  binarised label as a binary blob to \<open>{out_dir}/{id}.lab\<close>; nothing else is written.
  The step is possible when the load and the two computations succeed and both files
  can be written.
\<close>

definition label_only_step ::
  "('l, 'w, 'b, 'f) collab \<Rightarrow> path \<Rightarrow> path \<Rightarrow> bool \<Rightarrow> string \<Rightarrow> world \<Rightarrow> world \<Rightarrow> bool" where
  "label_only_step c lab_dir out_dir state_level file_id s s' =
     (\<exists>label d b.
        Label c (path_join lab_dir (file_id @ ''.lab'')) state_level (files s) = Inr label \<and>
        count_frames c label = Inr d \<and>
        binarise c label '''' = Inr b \<and>
        writable s (path_join out_dir (file_id @ ''.dur'')) \<and>
        writable s (path_join out_dir (file_id @ ''.lab'')) \<and>
        s' = s\<lparr>files := (files s)
                   (path_join out_dir (file_id @ ''.dur'') \<mapsto> encode_txt c (VInt d),
                    path_join out_dir (file_id @ ''.lab'') \<mapsto> encode_bin c (VLabel b)),
                 trace := trace s @
                   [EvLabel (path_join lab_dir (file_id @ ''.lab'')) state_level,
                    EvSaveTxt (path_join out_dir (file_id @ ''.dur'')),
                    EvSaveBin (path_join out_dir (file_id @ ''.lab''))]\<rparr>)"

text \<open>
  Waveform-only mode: the three sequences go as binary files to \<open>{out_dir}/{id}.f0\<close>,
  \<open>{out_dir}/{id}.mgc\<close> and \<open>{out_dir}/{id}.bap\<close>; nothing else is written. The step
  is possible when the load and the extraction succeed and the three files can be
  written.
\<close>

definition wav_only_step ::
  "('l, 'w, 'b, 'f) collab \<Rightarrow> path \<Rightarrow> path \<Rightarrow> string \<Rightarrow> world \<Rightarrow> world \<Rightarrow> bool" where
  "wav_only_step c wav_dir out_dir file_id s s' =
     (\<exists>wav f0 mgc bap.
        Wav c (path_join wav_dir (file_id @ ''.wav'')) (files s) = Inr wav \<and>
        extract_features c wav = Inr (f0, mgc, bap) \<and>
        writable s (path_join out_dir (file_id @ ''.f0'')) \<and>
        writable s (path_join out_dir (file_id @ ''.mgc'')) \<and>
        writable s (path_join out_dir (file_id @ ''.bap'')) \<and>
        s' = s\<lparr>files := (files s)
                   (path_join out_dir (file_id @ ''.f0'') \<mapsto> encode_bin c (VFeat f0),
                    path_join out_dir (file_id @ ''.mgc'') \<mapsto> encode_bin c (VFeat mgc),
                    path_join out_dir (file_id @ ''.bap'') \<mapsto> encode_bin c (VFeat bap)),
                 trace := trace s @
                   [EvWav (path_join wav_dir (file_id @ ''.wav'')),
                    EvSaveBin (path_join out_dir (file_id @ ''.f0'')),
                    EvSaveBin (path_join out_dir (file_id @ ''.mgc'')),
                    EvSaveBin (path_join out_dir (file_id @ ''.bap''))]\<rparr>)"

subsection \<open>A concrete disk and concrete collaborators\<close>

text \<open>
  A small instance on which the theorems below are exercised: a label is the text of
  its file, its frame count the length of that text, and a label of text \<open>bad\<close> cannot
  be binarised; a waveform is the text of its file and yields it three times.
\<close>

definition enc_value :: "(string, string) pyvalue \<Rightarrow> string" where
  "enc_value v = (case v of VLabel b \<Rightarrow> b | VInt n \<Rightarrow> replicate (nat n) (CHR ''|'') | VFeat f \<Rightarrow> f)"

definition c_demo :: "(string, string, string, string) collab" where
  "c_demo =
     \<lparr>Label = (\<lambda>p sl fs. case fs p of None \<Rightarrow> Inl (OSError p) | Some s \<Rightarrow> Inr s),
      binarise = (\<lambda>l ctx. if l = ''bad'' then Inl (ExternalError ''binarise'') else Inr (ctx @ l)),
      count_frames = (\<lambda>l. Inr (int (length l))),
      Wav = (\<lambda>p fs. case fs p of None \<Rightarrow> Inl (OSError p) | Some s \<Rightarrow> Inr s),
      extract_features = (\<lambda>wv. Inr (wv, wv, wv)),
      encode_proto = (\<lambda>m. concat (map (\<lambda>k. case m k of None \<Rightarrow> [] | Some v \<Rightarrow> k @ ''='' @ enc_value v @ '';'')
                                     [''lab'', ''duration'', ''f0'', ''mgc'', ''bap''])),
      encode_txt = enc_value,
      encode_bin = enc_value\<rparr>"

definition w_demo :: world where
  "w_demo =
     \<lparr>listing = [''labs'' \<mapsto> [''a.lab'', ''notes.txt'', ''b.lab''],
                 ''labs2'' \<mapsto> [''b.lab'', ''a.lab''],
                 ''wavs'' \<mapsto> [''a.wav'', ''b.wav'']],
      files = [''ids.txt'' \<mapsto> [CHR ''p'', CHR 0x0A],
               ''ids2.txt'' \<mapsto> [CHR ''p'', CHR 0x0A, CHR ''q'', CHR 0x0A],
               ''ids3.txt'' \<mapsto> [CHR ''r'', CHR 0x0A],
               ''labs/p.lab'' \<mapsto> ''xy'',
               ''labs/r.lab'' \<mapsto> ''bad'',
               ''wavs/p.wav'' \<mapsto> ''abc''],
      writable = (\<lambda>p. True),
      trace = [],
      next_obj = 0\<rparr>"

text \<open>
  A second disk: one directory holding the labels and the waveforms of the two ids
  \<open>a\<close> and \<open>b\<close>, and an id list naming both.
\<close>

definition w_pair :: world where
  "w_pair =
     \<lparr>listing = [''mix'' \<mapsto> [''a.lab'', ''a.wav'', ''b.lab'', ''b.wav'']],
      files = [''ab.txt'' \<mapsto> [CHR ''a'', CHR 0x0A, CHR ''b'', CHR 0x0A],
               ''mix/a.lab'' \<mapsto> ''x'',
               ''mix/b.lab'' \<mapsto> ''yz'',
               ''mix/a.wav'' \<mapsto> ''u'',
               ''mix/b.wav'' \<mapsto> ''vw''],
      writable = (\<lambda>p. True),
      trace = [],
      next_obj = 0\<rparr>"

definition args_demo :: "path option \<Rightarrow> path option \<Rightarrow> args" where
  "args_demo l v = \<lparr>args_lab_dir = l, args_wav_dir = v, args_id_list = Some ''ids.txt'', args_out_dir = ''out'', args_state_level = False\<rparr>"

section \<open>Properties\<close>

subsection \<open>Strings, paths and the loop\<close>


lemma endswith_iff: "endswith s t \<longleftrightarrow> (\<exists>i. s = i @ t)"
proof
  assume "endswith s t"
  then have "s = take (length s - length t) s @ t"
    by (metis append_take_drop_id endswith_def)
  then show "\<exists>i. s = i @ t" ..
next
  assume "\<exists>i. s = i @ t"
  then show "endswith s t" by (auto simp: endswith_def)
qed

lemma strip_suffix: "take (length (i @ t) - length t) (i @ t) = i"
  by simp

lemma strip_lab: "endswith f ''.lab'' \<Longrightarrow> take (length f - length ''.lab'') f @ ''.lab'' = f"
  unfolding endswith_def by (metis append_take_drop_id)

lemma map_strip_filter:
  "map (\<lambda>i. i @ ''.lab'') (map (\<lambda>x. take (length x - length ''.lab'') x) (filter (\<lambda>f. endswith f ''.lab'') names))
     = filter (\<lambda>f. endswith f ''.lab'') names"
  by (induction names) (auto simp: strip_lab simp del: length_Cons list.size)

lemma split_lines_line:
  "CHR 0x0A \<notin> set x \<Longrightarrow> split_lines (x @ CHR 0x0A # rest) = x # split_lines rest"
  by (induction x) auto

lemma get_file_ids_None:
  "listing w d = Some names \<Longrightarrow>
   get_file_ids d None w =
     (Inr (MapObj (next_obj w + 1)
            (map (\<lambda>x. take (length x - length ''.lab'') x) (filter (\<lambda>f. endswith f ''.lab'') names))),
      w\<lparr>trace := trace w @ [EvListdir d], next_obj := next_obj w + 2\<rparr>)"
  by (simp add: get_file_ids_def listdir_def emit_def Let_def)

lemma get_file_ids_None_fail:
  "listing w d = None \<Longrightarrow>
   get_file_ids d None w = (Inl (OSError d), w\<lparr>trace := trace w @ [EvListdir d]\<rparr>)"
  by (simp add: get_file_ids_def listdir_def emit_def)

lemma get_file_ids_Some:
  "get_file_ids d (Some p) w =
     ((case files w p of None \<Rightarrow> Inl (OSError p) | Some s \<Rightarrow> Inr (PyList (split_lines s))),
      w\<lparr>trace := trace w @ [EvLoadTxt p]\<rparr>)"
  by (simp add: get_file_ids_def load_txt_def emit_def split: option.splits)

lemma path_join_suffix:
  "\<not> startswith t ''/'' \<Longrightarrow> path_join a b @ t = path_join a (b @ t)"
  by (cases b) (auto simp: path_join_def startswith_def)

text \<open>
  For a non-empty directory name without a trailing separator and a relative file name,
  the joined path is the plain \<open>dir/name\<close>.
\<close>

lemma path_join_plain:
  "a \<noteq> [] \<Longrightarrow> \<not> endswith a ''/'' \<Longrightarrow> \<not> startswith b ''/'' \<Longrightarrow> path_join a b = a @ ''/'' @ b"
  by (simp add: path_join_def)



lemma not_lab_if_wav: "endswith f ''.wav'' \<Longrightarrow> \<not> endswith f ''.lab''"
  by (auto simp: endswith_def)

lemma filter_lab_of_wavs:
  "\<forall>f \<in> set names. endswith f ''.wav'' \<Longrightarrow> filter (\<lambda>f. endswith f ''.lab'') names = []"
  by (induction names) (auto dest: not_lab_if_wav)

lemma distinct_of_map: "distinct (map f xs) \<Longrightarrow> distinct xs"
  by (simp add: distinct_map)

lemma inj_add_lab: "inj (\<lambda>i. i @ ''.lab'')"
  by (rule injI) simp

subsection \<open>Resolving the ids\<close>

text \<open>
  C4. Without an id list, get_file_ids yields exactly the directory entries that end in
  \<open>.lab\<close>, each with the suffix stripped, in the order of the listing: putting the
  suffix restored on the ids gives the listing filtered by the suffix. Entries of a
  directory are distinct, and then so are the ids. When the entries ending in
  \<open>.lab\<close> are \<open>x.lab\<close> and \<open>y.lab\<close>, the ids are exactly \<open>x\<close> and \<open>y\<close>.
\<close>

theorem get_file_ids_lists_lab_entries:
  assumes "listing w dir = Some names"
  shows "\<exists>a ids. fst (get_file_ids dir None w) = Inr (MapObj a ids) \<and>
           map (\<lambda>i. i @ ''.lab'') ids = filter (\<lambda>f. endswith f ''.lab'') names \<and>
           (distinct names \<longrightarrow> distinct ids) \<and>
           (\<forall>x y. {f \<in> set names. endswith f ''.lab''} = {x @ ''.lab'', y @ ''.lab''}
                    \<longrightarrow> set ids = {x, y})"
proof -
  let ?ids = "map (\<lambda>x. take (length x - length ''.lab'') x) (filter (\<lambda>f. endswith f ''.lab'') names)"
  have res: "fst (get_file_ids dir None w) = Inr (MapObj (next_obj w + 1) ?ids)"
    using assms by (simp add: get_file_ids_None)
  have restored: "map (\<lambda>i. i @ ''.lab'') ?ids = filter (\<lambda>f. endswith f ''.lab'') names"
    by (rule map_strip_filter)
  have dist: "distinct ?ids" if "distinct names"
  proof -
    from that have "distinct (map (\<lambda>i. i @ ''.lab'') ?ids)"
      unfolding restored by simp
    then show ?thesis by (rule distinct_of_map)
  qed
  have ex: "set ?ids = {x, y}"
    if "{f \<in> set names. endswith f ''.lab''} = {x @ ''.lab'', y @ ''.lab''}" for x y
  proof -
    have "(\<lambda>i. i @ ''.lab'') ` set ?ids = set (filter (\<lambda>f. endswith f ''.lab'') names)"
      using restored by (metis set_map)
    also have "\<dots> = (\<lambda>i. i @ ''.lab'') ` {x, y}"
      using that by simp
    finally show ?thesis
      using inj_add_lab by (simp only: inj_image_eq_iff)
  qed
  from res restored dist ex show ?thesis by blast
qed

theorem get_file_ids_lists_lab_entries_witness:
  "listing w_demo ''labs'' = Some [''a.lab'', ''notes.txt'', ''b.lab''] \<and>
   (\<exists>a ids. fst (get_file_ids ''labs'' None w_demo) = Inr (MapObj a ids) \<and>
      map (\<lambda>i. i @ ''.lab'') ids = [''a.lab'', ''b.lab''] \<and> distinct ids \<and> set ids = {''a'', ''b''})"
proof -
  have h: "listing w_demo ''labs'' = Some [''a.lab'', ''notes.txt'', ''b.lab'']"
    by (simp add: w_demo_def)
  have f: "filter (\<lambda>f. endswith f ''.lab'') [''a.lab'', ''notes.txt'', ''b.lab''] = [''a.lab'', ''b.lab'']"
    by (simp add: endswith_def)
  from get_file_ids_lists_lab_entries [OF h] obtain a ids where
    r: "fst (get_file_ids ''labs'' None w_demo) = Inr (MapObj a ids)"
    and m: "map (\<lambda>i. i @ ''.lab'') ids = filter (\<lambda>f. endswith f ''.lab'') [''a.lab'', ''notes.txt'', ''b.lab'']"
    and d: "distinct [''a.lab'', ''notes.txt'', ''b.lab''] \<longrightarrow> distinct ids"
    and e: "\<forall>x y. {f \<in> set [''a.lab'', ''notes.txt'', ''b.lab'']. endswith f ''.lab''} = {x @ ''.lab'', y @ ''.lab''}
                    \<longrightarrow> set ids = {x, y}"
    by blast
  have "{f \<in> set [''a.lab'', ''notes.txt'', ''b.lab'']. endswith f ''.lab''} = {''a'' @ ''.lab'', ''b'' @ ''.lab''}"
    by (auto simp: endswith_def)
  with e have s: "set ids = {''a'', ''b''}" by blast
  from d have "distinct ids" by simp
  with h r m f s show ?thesis by auto
qed

text \<open>
  C5. With an id list, get_file_ids returns the lines of that file, in file order, as a
  list; the result (and the world after the call) is the same for every \<open>dir\<close>
  and for every content of the directories: the only call made is the reading of the
  id list, the directory is neither listed nor checked. A file whose two lines are \<open>x\<close> and
  \<open>y\<close> gives \<open>[x, y]\<close>.
\<close>

theorem get_file_ids_reads_id_list:
  assumes "files w p = Some text"
  shows "get_file_ids dir (Some p) w = get_file_ids dir' (Some p) w \<and>
         fst (get_file_ids dir (Some p) w) = Inr (PyList (split_lines text)) \<and>
         fst (get_file_ids dir (Some p) (w\<lparr>listing := ls\<rparr>)) = Inr (PyList (split_lines text)) \<and>
         trace (snd (get_file_ids dir (Some p) w)) = trace w @ [EvLoadTxt p] \<and>
         (\<forall>x y. CHR 0x0A \<notin> set x \<and> CHR 0x0A \<notin> set y \<and> text = x @ [CHR 0x0A] @ y @ [CHR 0x0A]
                 \<longrightarrow> fst (get_file_ids dir (Some p) w) = Inr (PyList [x, y]))"
  using assms by (auto simp: get_file_ids_Some split_lines_line)

theorem get_file_ids_reads_id_list_witness:
  "files w_demo ''ids2.txt'' = Some (''p'' @ [CHR 0x0A] @ ''q'' @ [CHR 0x0A]) \<and>
   CHR 0x0A \<notin> set ''p'' \<and> CHR 0x0A \<notin> set ''q'' \<and>
   get_file_ids ''labs'' (Some ''ids2.txt'') w_demo = get_file_ids ''nowhere'' (Some ''ids2.txt'') w_demo \<and>
   fst (get_file_ids ''nowhere'' (Some ''ids2.txt'') w_demo) = Inr (PyList [''p'', ''q''])"
proof -
  have h: "files w_demo ''ids2.txt'' = Some (''p'' @ [CHR 0x0A] @ ''q'' @ [CHR 0x0A])"
    by (simp add: w_demo_def)
  have n: "CHR 0x0A \<notin> set ''p'' \<and> CHR 0x0A \<notin> set ''q''" by simp
  from get_file_ids_reads_id_list [OF h, of "''nowhere''" "''labs''"]
  have a: "get_file_ids ''nowhere'' (Some ''ids2.txt'') w_demo = get_file_ids ''labs'' (Some ''ids2.txt'') w_demo"
    and b: "\<forall>x y. CHR 0x0A \<notin> set x \<and> CHR 0x0A \<notin> set y \<and>
               ''p'' @ [CHR 0x0A] @ ''q'' @ [CHR 0x0A] = x @ [CHR 0x0A] @ y @ [CHR 0x0A]
               \<longrightarrow> fst (get_file_ids ''nowhere'' (Some ''ids2.txt'') w_demo) = Inr (PyList [x, y])"
    by blast+
  from b n have "fst (get_file_ids ''nowhere'' (Some ''ids2.txt'') w_demo) = Inr (PyList [''p'', ''q''])"
    by blast
  with h n a show ?thesis by simp
qed

subsection \<open>Pairing in combined mode\<close>

lemma get_file_ids_files:
  "get_file_ids dir id_list w = (r, w1) \<Longrightarrow> files w1 = files w \<and> listing w1 = listing w"
  by (auto simp: get_file_ids_def listdir_def load_txt_def emit_def Let_def
           split: option.splits prod.splits sum.splits)

lemma get_file_ids_Some_twice:
  assumes "get_file_ids lab_dir (Some p) w = (Inr v, w1)"
    and "get_file_ids wav_dir (Some p) w1 = (Inr v', w2)"
  shows "v' = v \<and> (\<exists>ids. v = PyList ids) \<and> trace w2 = trace w @ [EvLoadTxt p, EvLoadTxt p]"
proof -
  from assms(1) have f: "files w1 = files w"
    by (simp add: get_file_ids_files)
  from assms(1) obtain s where s: "files w p = Some s" "v = PyList (split_lines s)"
    and t1: "w1 = w\<lparr>trace := trace w @ [EvLoadTxt p]\<rparr>"
    by (auto simp: get_file_ids_Some split: option.splits)
  from assms(2) f s have "v' = PyList (split_lines s)"
    and "w2 = w1\<lparr>trace := trace w1 @ [EvLoadTxt p]\<rparr>"
    by (auto simp: get_file_ids_Some split: option.splits)
  with s t1 show ?thesis by simp
qed

lemma py_ne_PyList_same: "\<not> py_ne (PyList ids) (PyList ids)"
  by simp

text \<open>
  C2. In combined mode, when the ids resolved from the label directory and those
  resolved from the waveform directory differ as ordered sequences, the run raises the
  ValueError with its message. At that point the disk is the initial one, and the only
  calls made are the two directory listings: no label or waveform was loaded and
  nothing was written. (Two different sequences can only come from listings: with an
  id list both calls read the same file.)
\<close>

theorem process_files_mismatch_aborts:
  assumes "get_file_ids lab_dir id_list w = (Inr v, w1)"
    and "get_file_ids wav_dir id_list w1 = (Inr v', w2)"
    and "iter v \<noteq> iter v'"
  shows "process_files c lab_dir wav_dir id_list out_dir state_level w =
           (Inl (ValueError
              ''Please provide id_list, or ensure that wav_dir and lab_dir contain the same files.''), w2) \<and>
         files w2 = files w \<and>
         trace w2 = trace w @ [EvListdir lab_dir, EvListdir wav_dir]"
proof (cases id_list)
  case (Some p)
  with assms(1,2) have "v' = v"
    using get_file_ids_Some_twice by blast
  with assms(3) show ?thesis by simp
next
  case None
  from assms(1) None obtain names where n: "listing w lab_dir = Some names"
    by (cases "listing w lab_dir") (auto simp: get_file_ids_None_fail)
  from assms(1) have l1: "listing w1 = listing w" and f1: "files w1 = files w"
    by (simp_all add: get_file_ids_files)
  from assms(2) None obtain names' where n': "listing w1 wav_dir = Some names'"
    by (cases "listing w1 wav_dir") (auto simp: get_file_ids_None_fail)
  from assms(1) None n obtain ids where v: "v = MapObj (next_obj w + 1) ids"
    and w1: "w1 = w\<lparr>trace := trace w @ [EvListdir lab_dir], next_obj := next_obj w + 2\<rparr>"
    by (auto simp: get_file_ids_None)
  from assms(2) None n' obtain ids' where v': "v' = MapObj (next_obj w1 + 1) ids'"
    and w2: "w2 = w1\<lparr>trace := trace w1 @ [EvListdir wav_dir], next_obj := next_obj w1 + 2\<rparr>"
    by (auto simp: get_file_ids_None)
  have ne: "py_ne v v'"
    using v v' w1 by simp
  have "process_files c lab_dir wav_dir id_list out_dir state_level w =
          (Inl (ValueError
              ''Please provide id_list, or ensure that wav_dir and lab_dir contain the same files.''), w2)"
    using assms(1,2) ne by (simp add: process_files_def)
  moreover have "files w2 = files w" using w1 w2 by simp
  moreover have "trace w2 = trace w @ [EvListdir lab_dir, EvListdir wav_dir]"
    using w1 w2 by simp
  ultimately show ?thesis by blast
qed

theorem process_files_mismatch_aborts_witness:
  "get_file_ids ''labs'' None w_demo =
     (Inr (MapObj 1 [''a'', ''b'']), w_demo\<lparr>trace := [EvListdir ''labs''], next_obj := 2\<rparr>) \<and>
   get_file_ids ''labs2'' None (w_demo\<lparr>trace := [EvListdir ''labs''], next_obj := 2\<rparr>) =
     (Inr (MapObj 3 [''b'', ''a'']), w_demo\<lparr>trace := [EvListdir ''labs'', EvListdir ''labs2''], next_obj := 4\<rparr>) \<and>
   iter (MapObj 1 [''a'', ''b'']) \<noteq> iter (MapObj 3 [''b'', ''a'']) \<and>
   process_files c_demo ''labs'' ''labs2'' None ''out'' False w_demo =
     (Inl (ValueError
        ''Please provide id_list, or ensure that wav_dir and lab_dir contain the same files.''),
      w_demo\<lparr>trace := [EvListdir ''labs'', EvListdir ''labs2''], next_obj := 4\<rparr>)"
proof -
  have h1: "get_file_ids ''labs'' None w_demo =
     (Inr (MapObj 1 [''a'', ''b'']), w_demo\<lparr>trace := [EvListdir ''labs''], next_obj := 2\<rparr>)"
    by (simp add: get_file_ids_def listdir_def emit_def Let_def w_demo_def endswith_def)
  have h2: "get_file_ids ''labs2'' None (w_demo\<lparr>trace := [EvListdir ''labs''], next_obj := 2\<rparr>) =
     (Inr (MapObj 3 [''b'', ''a'']), w_demo\<lparr>trace := [EvListdir ''labs'', EvListdir ''labs2''], next_obj := 4\<rparr>)"
    by (simp add: get_file_ids_def listdir_def emit_def Let_def w_demo_def endswith_def)
  have h3: "iter (MapObj 1 [''a'', ''b'']) \<noteq> iter (MapObj 3 [''b'', ''a''])"
    by simp
  from process_files_mismatch_aborts [OF h1 h2 h3, of c_demo "''out''" False] h1 h2 h3
  show ?thesis by blast
qed

text \<open>
  C3. Without an id list, each call of get_file_ids returns a fresh lazy map object, not
  a list, and the two objects are distinct; so for any two directories that can be
  listed, combined mode raises the mismatch ValueError, whatever the two listings are
  (also when they give the same ids). Nothing is loaded or written.
\<close>

theorem process_files_without_id_list_raises:
  assumes "listing w lab_dir = Some names"
    and "listing w wav_dir = Some names'"
  shows "\<exists>a ids w1 a' ids' w2.
           get_file_ids lab_dir None w = (Inr (MapObj a ids), w1) \<and>
           get_file_ids wav_dir None w1 = (Inr (MapObj a' ids'), w2) \<and>
           a \<noteq> a' \<and>
           py_ne (MapObj a ids) (MapObj a' ids') \<and>
           process_files c lab_dir wav_dir None out_dir state_level w =
             (Inl (ValueError
                ''Please provide id_list, or ensure that wav_dir and lab_dir contain the same files.''), w2) \<and>
           files w2 = files w \<and>
           trace w2 = trace w @ [EvListdir lab_dir, EvListdir wav_dir]"
proof -
  define ids where
    "ids = map (\<lambda>x. take (length x - length ''.lab'') x) (filter (\<lambda>f. endswith f ''.lab'') names)"
  define ids' where
    "ids' = map (\<lambda>x. take (length x - length ''.lab'') x) (filter (\<lambda>f. endswith f ''.lab'') names')"
  define w1 where "w1 = w\<lparr>trace := trace w @ [EvListdir lab_dir], next_obj := next_obj w + 2\<rparr>"
  define w2 where "w2 = w1\<lparr>trace := trace w1 @ [EvListdir wav_dir], next_obj := next_obj w1 + 2\<rparr>"
  have g1: "get_file_ids lab_dir None w = (Inr (MapObj (next_obj w + 1) ids), w1)"
    unfolding ids_def w1_def using assms(1) by (rule get_file_ids_None)
  have "listing w1 wav_dir = Some names'"
    using assms(2) by (simp add: w1_def)
  then have g2: "get_file_ids wav_dir None w1 = (Inr (MapObj (next_obj w1 + 1) ids'), w2)"
    unfolding ids'_def w2_def by (rule get_file_ids_None)
  have d: "next_obj w + 1 \<noteq> next_obj w1 + 1"
    by (simp add: w1_def)
  then have ne: "py_ne (MapObj (next_obj w + 1) ids) (MapObj (next_obj w1 + 1) ids')"
    by simp
  have r: "process_files c lab_dir wav_dir None out_dir state_level w =
      (Inl (ValueError
         ''Please provide id_list, or ensure that wav_dir and lab_dir contain the same files.''), w2)"
    using ne by (simp add: process_files_def g1 g2 del: py_ne.simps)
  have f: "files w2 = files w"
    by (simp add: w2_def w1_def)
  have t: "trace w2 = trace w @ [EvListdir lab_dir, EvListdir wav_dir]"
    by (simp add: w2_def w1_def)
  from g1 g2 d ne r f t show ?thesis by blast
qed

theorem process_files_without_id_list_raises_witness:
  "listing w_demo ''labs'' = Some [''a.lab'', ''notes.txt'', ''b.lab''] \<and>
   (\<exists>w2. process_files c_demo ''labs'' ''labs'' None ''out'' False w_demo =
      (Inl (ValueError
         ''Please provide id_list, or ensure that wav_dir and lab_dir contain the same files.''), w2) \<and>
      files w2 = files w_demo)"
proof -
  have h: "listing w_demo ''labs'' = Some [''a.lab'', ''notes.txt'', ''b.lab'']"
    by (simp add: w_demo_def)
  from process_files_without_id_list_raises [OF h h, of c_demo "''out''" False] h
  show ?thesis by blast
qed

subsection \<open>Waveform directories without an id list\<close>

text \<open>
  C10. Whatever directory it is given, get_file_ids keeps the entries ending in
  \<open>.lab\<close>. So in waveform-only mode without an id list, a waveform directory whose
  entries all end in \<open>.wav\<close> gives no id at all: the run ends without error, the
  disk is unchanged, and the only call made is the directory listing.
\<close>

theorem process_wav_files_wav_directory_empty:
  assumes "listing w wav_dir = Some names"
  shows "\<exists>a ids w0.
           get_file_ids wav_dir None w = (Inr (MapObj a ids), w0) \<and>
           map (\<lambda>i. i @ ''.lab'') ids = filter (\<lambda>f. endswith f ''.lab'') names \<and>
           ((\<forall>f \<in> set names. endswith f ''.wav'') \<longrightarrow>
              ids = [] \<and>
              process_wav_files c wav_dir None out_dir w = (Inr (), w0) \<and>
              files w0 = files w \<and>
              trace w0 = trace w @ [EvListdir wav_dir])"
proof -
  let ?ids = "map (\<lambda>x. take (length x - length ''.lab'') x) (filter (\<lambda>f. endswith f ''.lab'') names)"
  let ?w0 = "w\<lparr>trace := trace w @ [EvListdir wav_dir], next_obj := next_obj w + 2\<rparr>"
  have g: "get_file_ids wav_dir None w = (Inr (MapObj (next_obj w + 1) ?ids), ?w0)"
    using assms by (rule get_file_ids_None)
  have m: "map (\<lambda>i. i @ ''.lab'') ?ids = filter (\<lambda>f. endswith f ''.lab'') names"
    by (rule map_strip_filter)
  have e: "?ids = [] \<and> process_wav_files c wav_dir None out_dir w = (Inr (), ?w0) \<and>
           files ?w0 = files w \<and> trace ?w0 = trace w @ [EvListdir wav_dir]"
    if "\<forall>f \<in> set names. endswith f ''.wav''"
  proof -
    from that have "filter (\<lambda>f. endswith f ''.lab'') names = []"
      by (rule filter_lab_of_wavs)
    then have i: "?ids = []" by simp
    have "process_wav_files c wav_dir None out_dir w = for_each (process_wav_files_body c wav_dir out_dir) ?ids ?w0"
      unfolding process_wav_files_def g by simp
    with i show ?thesis by simp
  qed
  from g m e show ?thesis by blast
qed

theorem process_wav_files_wav_directory_empty_witness:
  "listing w_demo ''wavs'' = Some [''a.wav'', ''b.wav''] \<and>
   endswith ''a.wav'' ''.wav'' \<and> endswith ''b.wav'' ''.wav'' \<and>
   (\<exists>w0. process_wav_files c_demo ''wavs'' None ''out'' w_demo = (Inr (), w0) \<and>
      files w0 = files w_demo \<and> trace w0 = [EvListdir ''wavs''])"
proof -
  have h: "listing w_demo ''wavs'' = Some [''a.wav'', ''b.wav'']"
    by (simp add: w_demo_def)
  have a: "\<forall>f \<in> set [''a.wav'', ''b.wav'']. endswith f ''.wav''"
    by (simp add: endswith_def)
  have t: "trace w_demo = []"
    by (simp add: w_demo_def)
  from process_wav_files_wav_directory_empty [OF h, of c_demo "''out''"] a t h
  show ?thesis by auto
qed

lemma get_file_ids_None_twice:
  assumes "get_file_ids lab_dir None w = (Inr v, w1)"
    and "get_file_ids wav_dir None w1 = (Inr v', w2)"
  shows "py_ne v v'"
proof -
  from assms(1) obtain names where n: "listing w lab_dir = Some names"
    by (cases "listing w lab_dir") (auto simp: get_file_ids_None_fail)
  from assms(2) obtain names' where n': "listing w1 wav_dir = Some names'"
    by (cases "listing w1 wav_dir") (auto simp: get_file_ids_None_fail)
  from assms(1) n obtain ids where v: "v = MapObj (next_obj w + 1) ids"
    and w1: "next_obj w1 = next_obj w + 2"
    by (auto simp: get_file_ids_None)
  from assms(2) n' obtain ids' where v': "v' = MapObj (next_obj w1 + 1) ids'"
    by (auto simp: get_file_ids_None)
  from v v' w1 show ?thesis by simp
qed

subsection \<open>The three processing modes\<close>

text \<open>The loop succeeds exactly when the body succeeds on each id in turn.\<close>

lemma for_each_stepwise_iff:
  "for_each body ids w = (Inr (), w') \<longleftrightarrow> stepwise (\<lambda>x s s'. body x s = (Inr (), s')) ids w w'"
proof (induction ids arbitrary: w)
  case Nil
  show ?case by auto
next
  case (Cons x xs)
  obtain r w1 where b: "body x w = (r, w1)" by (cases "body x w")
  show ?case
  proof (cases r)
    case (Inl e)
    with b show ?thesis by simp
  next
    case (Inr u)
    with b Cons.IH [of w1] show ?thesis by simp
  qed
qed

lemma for_each_stepwise:
  assumes "for_each body ids w = (Inr (), w')"
    and "\<And>x s s'. body x s = (Inr (), s') \<Longrightarrow> R x s s'"
  shows "stepwise R ids w w'"
  using assms(1)
proof (induction ids arbitrary: w)
  case Nil
  then show ?case by simp
next
  case (Cons x xs)
  from Cons.prems obtain w1 where b: "body x w = (Inr (), w1)"
    and r: "for_each body xs w1 = (Inr (), w')"
    by (auto split: prod.splits sum.splits)
  from b have "R x w w1" by (rule assms(2))
  moreover from r have "stepwise R xs w1 w'" by (rule Cons.IH)
  ultimately show ?case by auto
qed

lemma write_file_ok:
  "write_file p t w = (Inr (), w') \<Longrightarrow> writable w p \<and> w' = w\<lparr>files := (files w)(p \<mapsto> t)\<rparr>"
  by (auto simp: write_file_def split: if_splits)

lemma features_determined:
  assumes "dom f = {''lab'', ''duration'', ''f0'', ''mgc'', ''bap''}"
    and "f ''lab'' = Some a" and "f ''duration'' = Some b" and "f ''f0'' = Some x"
    and "f ''mgc'' = Some y" and "f ''bap'' = Some z"
  shows "f = [''lab'' \<mapsto> a, ''duration'' \<mapsto> b, ''f0'' \<mapsto> x, ''mgc'' \<mapsto> y, ''bap'' \<mapsto> z]"
proof (rule ext)
  fix k
  show "f k = [''lab'' \<mapsto> a, ''duration'' \<mapsto> b, ''f0'' \<mapsto> x, ''mgc'' \<mapsto> y, ''bap'' \<mapsto> z] k"
  proof (cases "k \<in> dom f")
    case True
    with assms(1) have "k = ''lab'' \<or> k = ''duration'' \<or> k = ''f0'' \<or> k = ''mgc'' \<or> k = ''bap''"
      by simp
    with assms(2-) show ?thesis by auto
  next
    case False
    then have "f k = None" by (simp add: domIff)
    moreover from False assms(1)
    have "k \<noteq> ''lab''" "k \<noteq> ''duration''" "k \<noteq> ''f0''" "k \<noteq> ''mgc''" "k \<noteq> ''bap''"
      by auto
    ultimately show ?thesis by simp
  qed
qed

lemma process_files_body_step:
  assumes "process_files_body c lab_dir wav_dir out_dir state_level file_id s = (Inr (), s')"
  shows "combined_step c lab_dir wav_dir out_dir state_level file_id s s'"
proof -
  let ?lp = "path_join lab_dir (file_id @ ''.lab'')"
  let ?wp = "path_join wav_dir (file_id @ ''.wav'')"
  let ?pp = "path_join out_dir (file_id @ ''.proto'')"
  from assms obtain label wav b d f0 mgc bap where
    l: "Label c ?lp state_level (files s) = Inr label"
    and wv: "Wav c ?wp (files s) = Inr wav"
    and b: "binarise c label '''' = Inr b"
    and d: "count_frames c label = Inr d"
    and x: "extract_features c wav = Inr (f0, mgc, bap)"
    and sv: "save_proto c [''lab'' \<mapsto> VLabel b, ''duration'' \<mapsto> VInt d, ''f0'' \<mapsto> VFeat f0,
                          ''mgc'' \<mapsto> VFeat mgc, ''bap'' \<mapsto> VFeat bap] ?pp
               (emit (EvWav ?wp) (emit (EvLabel ?lp state_level) s)) = (Inr (), s')"
    by (auto simp: process_files_body_def new_Label_def new_Wav_def Let_def emit_def
             split: sum.splits prod.splits)
  let ?features = "[''lab'' \<mapsto> VLabel b, ''duration'' \<mapsto> VInt d, ''f0'' \<mapsto> VFeat f0,
                    ''mgc'' \<mapsto> VFeat mgc, ''bap'' \<mapsto> VFeat bap]"
  from sv have wr: "writable s ?pp"
    and s': "s' = s\<lparr>files := (files s)(?pp \<mapsto> encode_proto c ?features),
                     trace := trace s @ [EvLabel ?lp state_level, EvWav ?wp, EvSaveProto ?pp]\<rparr>"
    unfolding save_proto_def by (auto dest!: write_file_ok simp: emit_def)
  have dm: "dom ?features = {''lab'', ''duration'', ''f0'', ''mgc'', ''bap''}"
    by auto
  have vals: "?features ''lab'' = Some (VLabel b)" "?features ''duration'' = Some (VInt d)"
    "?features ''f0'' = Some (VFeat f0)" "?features ''mgc'' = Some (VFeat mgc)"
    "?features ''bap'' = Some (VFeat bap)"
    by simp_all
  show ?thesis
    unfolding combined_step_def using l wv b d x dm vals wr s' by blast
qed

lemma process_files_body_progress:
  assumes "combined_step c lab_dir wav_dir out_dir state_level file_id s s'"
  shows "process_files_body c lab_dir wav_dir out_dir state_level file_id s = (Inr (), s')"
proof -
  let ?lp = "path_join lab_dir (file_id @ ''.lab'')"
  let ?wp = "path_join wav_dir (file_id @ ''.wav'')"
  let ?pp = "path_join out_dir (file_id @ ''.proto'')"
  from assms obtain label wav b d f0 mgc bap features where
    l: "Label c ?lp state_level (files s) = Inr label"
    and wv: "Wav c ?wp (files s) = Inr wav"
    and b: "binarise c label '''' = Inr b"
    and d: "count_frames c label = Inr d"
    and x: "extract_features c wav = Inr (f0, mgc, bap)"
    and dm: "dom features = {''lab'', ''duration'', ''f0'', ''mgc'', ''bap''}"
    and vals: "features ''lab'' = Some (VLabel b)" "features ''duration'' = Some (VInt d)"
      "features ''f0'' = Some (VFeat f0)" "features ''mgc'' = Some (VFeat mgc)"
      "features ''bap'' = Some (VFeat bap)"
    and wr: "writable s ?pp"
    and s': "s' = s\<lparr>files := (files s)(?pp \<mapsto> encode_proto c features),
                     trace := trace s @ [EvLabel ?lp state_level, EvWav ?wp, EvSaveProto ?pp]\<rparr>"
    unfolding combined_step_def by blast
  from dm vals have f: "features = [''lab'' \<mapsto> VLabel b, ''duration'' \<mapsto> VInt d, ''f0'' \<mapsto> VFeat f0,
                    ''mgc'' \<mapsto> VFeat mgc, ''bap'' \<mapsto> VFeat bap]"
    by (rule features_determined)
  show ?thesis
    using l wv b d x wr
    unfolding s' f
    by (simp add: process_files_body_def new_Label_def new_Wav_def save_proto_def write_file_def
          emit_def Let_def)
qed

lemma process_lab_files_body_step:
  assumes "process_lab_files_body c lab_dir out_dir state_level file_id s = (Inr (), s')"
  shows "label_only_step c lab_dir out_dir state_level file_id s s'"
proof -
  let ?lp = "path_join lab_dir (file_id @ ''.lab'')"
  let ?dp = "path_join out_dir (file_id @ ''.dur'')"
  let ?bp = "path_join out_dir (file_id @ ''.lab'')"
  from assms obtain label d b s2 where
    l: "Label c ?lp state_level (files s) = Inr label"
    and d: "count_frames c label = Inr d"
    and st: "save_txt c (VInt d) ?dp (emit (EvLabel ?lp state_level) s) = (Inr (), s2)"
    and b: "binarise c label '''' = Inr b"
    and sb: "save_bin c (VLabel b) ?bp s2 = (Inr (), s')"
    by (auto simp: process_lab_files_body_def new_Label_def Let_def
             split: sum.splits prod.splits)
  from st have w1: "writable s ?dp"
    and s2: "s2 = s\<lparr>files := (files s)(?dp \<mapsto> encode_txt c (VInt d)),
                     trace := trace s @ [EvLabel ?lp state_level, EvSaveTxt ?dp]\<rparr>"
    unfolding save_txt_def by (auto dest!: write_file_ok simp: emit_def)
  from sb have w2: "writable s2 ?bp"
    and s': "s' = s2\<lparr>files := (files s2)(?bp \<mapsto> encode_bin c (VLabel b)),
                      trace := trace s2 @ [EvSaveBin ?bp]\<rparr>"
    unfolding save_bin_def by (auto dest!: write_file_ok simp: emit_def)
  from w2 s2 have w2': "writable s ?bp" by simp
  from s' s2 have "s' = s\<lparr>files := (files s)(?dp \<mapsto> encode_txt c (VInt d), ?bp \<mapsto> encode_bin c (VLabel b)),
                          trace := trace s @ [EvLabel ?lp state_level, EvSaveTxt ?dp, EvSaveBin ?bp]\<rparr>"
    by simp
  with l d b w1 w2' show ?thesis
    unfolding label_only_step_def by blast
qed

lemma process_lab_files_body_progress:
  assumes "label_only_step c lab_dir out_dir state_level file_id s s'"
  shows "process_lab_files_body c lab_dir out_dir state_level file_id s = (Inr (), s')"
proof -
  let ?lp = "path_join lab_dir (file_id @ ''.lab'')"
  let ?dp = "path_join out_dir (file_id @ ''.dur'')"
  let ?bp = "path_join out_dir (file_id @ ''.lab'')"
  from assms obtain label d b where
    l: "Label c ?lp state_level (files s) = Inr label"
    and d: "count_frames c label = Inr d"
    and b: "binarise c label '''' = Inr b"
    and w1: "writable s ?dp" and w2: "writable s ?bp"
    and s': "s' = s\<lparr>files := (files s)(?dp \<mapsto> encode_txt c (VInt d), ?bp \<mapsto> encode_bin c (VLabel b)),
                     trace := trace s @ [EvLabel ?lp state_level, EvSaveTxt ?dp, EvSaveBin ?bp]\<rparr>"
    unfolding label_only_step_def by blast
  show ?thesis
    using l d b w1 w2
    unfolding s'
    by (simp add: process_lab_files_body_def new_Label_def save_txt_def save_bin_def write_file_def
          emit_def Let_def)
qed

lemma feature_paths:
  "path_join out_dir file_id @ ''.f0'' = path_join out_dir (file_id @ ''.f0'')"
  "path_join out_dir file_id @ ''.mgc'' = path_join out_dir (file_id @ ''.mgc'')"
  "path_join out_dir file_id @ ''.bap'' = path_join out_dir (file_id @ ''.bap'')"
  by (rule path_join_suffix, simp add: startswith_def)+

lemma process_wav_files_body_step:
  assumes "process_wav_files_body c wav_dir out_dir file_id s = (Inr (), s')"
  shows "wav_only_step c wav_dir out_dir file_id s s'"
proof -
  let ?wp = "path_join wav_dir (file_id @ ''.wav'')"
  let ?f0p = "path_join out_dir (file_id @ ''.f0'')"
  let ?mp = "path_join out_dir (file_id @ ''.mgc'')"
  let ?bp = "path_join out_dir (file_id @ ''.bap'')"
  from assms obtain wav f0 mgc bap s2 s3 where
    wv: "Wav c ?wp (files s) = Inr wav"
    and x: "extract_features c wav = Inr (f0, mgc, bap)"
    and s1: "save_bin c (VFeat f0) ?f0p (emit (EvWav ?wp) s) = (Inr (), s2)"
    and s2: "save_bin c (VFeat mgc) ?mp s2 = (Inr (), s3)"
    and s3: "save_bin c (VFeat bap) ?bp s3 = (Inr (), s')"
    by (auto simp: process_wav_files_body_def new_Wav_def Let_def feature_paths
             split: sum.splits prod.splits)
  from s1 have w1: "writable s ?f0p"
    and e2: "s2 = s\<lparr>files := (files s)(?f0p \<mapsto> encode_bin c (VFeat f0)),
                     trace := trace s @ [EvWav ?wp, EvSaveBin ?f0p]\<rparr>"
    unfolding save_bin_def by (auto dest!: write_file_ok simp: emit_def)
  from s2 have w2: "writable s2 ?mp"
    and e3: "s3 = s2\<lparr>files := (files s2)(?mp \<mapsto> encode_bin c (VFeat mgc)),
                      trace := trace s2 @ [EvSaveBin ?mp]\<rparr>"
    unfolding save_bin_def by (auto dest!: write_file_ok simp: emit_def)
  from s3 have w3: "writable s3 ?bp"
    and e4: "s' = s3\<lparr>files := (files s3)(?bp \<mapsto> encode_bin c (VFeat bap)),
                      trace := trace s3 @ [EvSaveBin ?bp]\<rparr>"
    unfolding save_bin_def by (auto dest!: write_file_ok simp: emit_def)
  from w2 e2 have w2': "writable s ?mp" by simp
  from w3 e3 e2 have w3': "writable s ?bp" by simp
  from e2 e3 e4 have "s' = s\<lparr>files := (files s)(?f0p \<mapsto> encode_bin c (VFeat f0), ?mp \<mapsto> encode_bin c (VFeat mgc),
                             ?bp \<mapsto> encode_bin c (VFeat bap)),
                         trace := trace s @ [EvWav ?wp, EvSaveBin ?f0p, EvSaveBin ?mp, EvSaveBin ?bp]\<rparr>"
    by simp
  with wv x w1 w2' w3' show ?thesis
    unfolding wav_only_step_def by blast
qed

lemma process_wav_files_body_progress:
  assumes "wav_only_step c wav_dir out_dir file_id s s'"
  shows "process_wav_files_body c wav_dir out_dir file_id s = (Inr (), s')"
proof -
  let ?wp = "path_join wav_dir (file_id @ ''.wav'')"
  let ?f0p = "path_join out_dir (file_id @ ''.f0'')"
  let ?mp = "path_join out_dir (file_id @ ''.mgc'')"
  let ?bp = "path_join out_dir (file_id @ ''.bap'')"
  from assms obtain wav f0 mgc bap where
    wv: "Wav c ?wp (files s) = Inr wav"
    and x: "extract_features c wav = Inr (f0, mgc, bap)"
    and w1: "writable s ?f0p" and w2: "writable s ?mp" and w3: "writable s ?bp"
    and s': "s' = s\<lparr>files := (files s)(?f0p \<mapsto> encode_bin c (VFeat f0), ?mp \<mapsto> encode_bin c (VFeat mgc),
                             ?bp \<mapsto> encode_bin c (VFeat bap)),
                     trace := trace s @ [EvWav ?wp, EvSaveBin ?f0p, EvSaveBin ?mp, EvSaveBin ?bp]\<rparr>"
    unfolding wav_only_step_def by blast
  show ?thesis
    using wv x w1 w2 w3
    unfolding s'
    by (simp add: process_wav_files_body_def new_Wav_def save_bin_def write_file_def
          emit_def Let_def feature_paths)
qed

text \<open>In each mode the loop body succeeds exactly as the step of the mode says.\<close>

lemma process_files_body_is_step:
  "(\<lambda>x s s'. process_files_body c lab_dir wav_dir out_dir state_level x s = (Inr (), s'))
     = combined_step c lab_dir wav_dir out_dir state_level"
proof (intro ext iffI)
  fix x s s'
  show "process_files_body c lab_dir wav_dir out_dir state_level x s = (Inr (), s') \<Longrightarrow>
        combined_step c lab_dir wav_dir out_dir state_level x s s'"
    by (rule process_files_body_step)
  show "combined_step c lab_dir wav_dir out_dir state_level x s s' \<Longrightarrow>
        process_files_body c lab_dir wav_dir out_dir state_level x s = (Inr (), s')"
    by (rule process_files_body_progress)
qed

lemma process_lab_files_body_is_step:
  "(\<lambda>x s s'. process_lab_files_body c lab_dir out_dir state_level x s = (Inr (), s'))
     = label_only_step c lab_dir out_dir state_level"
proof (intro ext iffI)
  fix x s s'
  show "process_lab_files_body c lab_dir out_dir state_level x s = (Inr (), s') \<Longrightarrow>
        label_only_step c lab_dir out_dir state_level x s s'"
    by (rule process_lab_files_body_step)
  show "label_only_step c lab_dir out_dir state_level x s s' \<Longrightarrow>
        process_lab_files_body c lab_dir out_dir state_level x s = (Inr (), s')"
    by (rule process_lab_files_body_progress)
qed

lemma process_wav_files_body_is_step:
  "(\<lambda>x s s'. process_wav_files_body c wav_dir out_dir x s = (Inr (), s'))
     = wav_only_step c wav_dir out_dir"
proof (intro ext iffI)
  fix x s s'
  show "process_wav_files_body c wav_dir out_dir x s = (Inr (), s') \<Longrightarrow>
        wav_only_step c wav_dir out_dir x s s'"
    by (rule process_wav_files_body_step)
  show "wav_only_step c wav_dir out_dir x s s' \<Longrightarrow>
        process_wav_files_body c wav_dir out_dir x s = (Inr (), s')"
    by (rule process_wav_files_body_progress)
qed

text \<open>So each loop succeeds exactly when the world can move by one step per id.\<close>

lemma for_each_combined:
  "for_each (process_files_body c lab_dir wav_dir out_dir state_level) ids w = (Inr (), w')
     \<longleftrightarrow> stepwise (combined_step c lab_dir wav_dir out_dir state_level) ids w w'"
  by (simp only: for_each_stepwise_iff process_files_body_is_step)

lemma for_each_label_only:
  "for_each (process_lab_files_body c lab_dir out_dir state_level) ids w = (Inr (), w')
     \<longleftrightarrow> stepwise (label_only_step c lab_dir out_dir state_level) ids w w'"
  by (simp only: for_each_stepwise_iff process_lab_files_body_is_step)

lemma for_each_wav_only:
  "for_each (process_wav_files_body c wav_dir out_dir) ids w = (Inr (), w')
     \<longleftrightarrow> stepwise (wav_only_step c wav_dir out_dir) ids w w'"
  by (simp only: for_each_stepwise_iff process_wav_files_body_is_step)

lemma stepwise_unchanged_elsewhere:
  assumes "stepwise R ids w w'"
    and "\<And>x s s' q. R x s s' \<Longrightarrow> q \<notin> P x \<Longrightarrow> files s' q = files s q"
    and "q \<notin> (\<Union>x \<in> set ids. P x)"
  shows "files w' q = files w q"
  using assms(1,3)
proof (induction ids arbitrary: w)
  case Nil
  then show ?case by simp
next
  case (Cons x xs)
  from Cons.prems(1) obtain w1 where r: "R x w w1" and st: "stepwise R xs w1 w'"
    by auto
  from Cons.prems(2) have nx: "q \<notin> P x" and nxs: "q \<notin> (\<Union>x \<in> set xs. P x)"
    by auto
  from r nx have "files w1 q = files w q" by (rule assms(2))
  moreover from st nxs have "files w' q = files w1 q" by (rule Cons.IH)
  ultimately show ?case by simp
qed

lemma pair_of_fst: "fst x = a \<Longrightarrow> x = (a, snd x)"
  by auto

lemma endswith_append: "endswith (a @ t) t"
  by (simp add: endswith_def)

lemma endswith_path_join: "endswith (path_join a (b @ t)) t"
proof -
  have "endswith (b @ t) t" by (rule endswith_append)
  moreover have "endswith (a @ b @ t) t"
    using endswith_append [of "a @ b" t] by simp
  moreover have "endswith (a @ ''/'' @ b @ t) t"
    using endswith_append [of "a @ ''/'' @ b" t] by simp
  ultimately show ?thesis
    by (simp add: path_join_def)
qed

lemma endswith_last: "endswith q t \<Longrightarrow> t \<noteq> [] \<Longrightarrow> last q = last t"
  by (auto simp: endswith_iff)

lemma feature_suffix_only:
  assumes "endswith q ''.f0'' \<or> endswith q ''.mgc'' \<or> endswith q ''.bap''"
  shows "\<not> endswith q ''.proto'' \<and> \<not> endswith q ''.dur'' \<and> \<not> endswith q ''.lab''"
proof -
  from assms have "last q = CHR ''0'' \<or> last q = CHR ''c'' \<or> last q = CHR ''p''"
    by (auto dest: endswith_last)
  moreover have "last q = CHR ''o''" if "endswith q ''.proto''"
    using endswith_last [OF that] by simp
  moreover have "last q = CHR ''r''" if "endswith q ''.dur''"
    using endswith_last [OF that] by simp
  moreover have "last q = CHR ''b''" if "endswith q ''.lab''"
    using endswith_last [OF that] by simp
  ultimately show ?thesis by auto
qed

text \<open>The definitions to unfold when a run is evaluated on the concrete instance.\<close>

lemmas run_defs =
  process_files_def process_lab_files_def process_wav_files_def
  process_files_body_def process_lab_files_body_def process_wav_files_body_def
  get_file_ids_def load_txt_def listdir_def emit_def new_Label_def new_Wav_def
  save_proto_def save_txt_def save_bin_def write_file_def
  path_join_def startswith_def endswith_def Let_def
  w_demo_def w_pair_def c_demo_def enc_value_def

lemma process_files_ok:
  assumes run: "process_files c lab_dir wav_dir id_list out_dir state_level w = (Inr (), w')"
  shows "\<exists>p ids w1 w0.
           id_list = Some p \<and>
           get_file_ids lab_dir id_list w = (Inr (PyList ids), w1) \<and>
           get_file_ids wav_dir id_list w1 = (Inr (PyList ids), w0) \<and>
           files w0 = files w \<and>
           trace w0 = trace w @ [EvLoadTxt p, EvLoadTxt p] \<and>
           stepwise (combined_step c lab_dir wav_dir out_dir state_level) ids w0 w' \<and>
           (\<forall>q. q \<notin> (\<lambda>i. path_join out_dir (i @ ''.proto'')) ` set ids \<longrightarrow> files w' q = files w q)"
proof -
  obtain r1 w1 where g1': "get_file_ids lab_dir id_list w = (r1, w1)"
    by (cases "get_file_ids lab_dir id_list w")
  with run obtain v where g1: "get_file_ids lab_dir id_list w = (Inr v, w1)"
    by (cases r1) (simp_all add: process_files_def)
  obtain r2 w0 where g2': "get_file_ids wav_dir id_list w1 = (r2, w0)"
    by (cases "get_file_ids wav_dir id_list w1")
  with run g1 obtain v' where g2: "get_file_ids wav_dir id_list w1 = (Inr v', w0)"
    by (cases r2) (simp_all add: process_files_def)
  from run g1 g2 have eq: "\<not> py_ne v v'"
    by (cases "py_ne v v'") (simp_all add: process_files_def)
  with run g1 g2 have loop:
    "for_each (process_files_body c lab_dir wav_dir out_dir state_level) (iter v) w0 = (Inr (), w')"
    by (simp add: process_files_def)
  have "id_list \<noteq> None"
  proof
    assume "id_list = None"
    with g1 g2 have "py_ne v v'" by (auto intro: get_file_ids_None_twice)
    with eq show False by simp
  qed
  then obtain p where p: "id_list = Some p" by auto
  from g1 g2 p have "v' = v \<and> (\<exists>ids. v = PyList ids) \<and> trace w0 = trace w @ [EvLoadTxt p, EvLoadTxt p]"
    by (intro get_file_ids_Some_twice) simp_all
  then obtain ids where v: "v = PyList ids" and v': "v' = PyList ids"
    and t: "trace w0 = trace w @ [EvLoadTxt p, EvLoadTxt p]"
    by auto
  from g1 have "files w1 = files w" by (simp add: get_file_ids_files)
  moreover from g2 have "files w0 = files w1" by (simp add: get_file_ids_files)
  ultimately have f: "files w0 = files w" by simp
  from loop v have loop_ids:
    "for_each (process_files_body c lab_dir wav_dir out_dir state_level) ids w0 = (Inr (), w')"
    by simp
  have st: "stepwise (combined_step c lab_dir wav_dir out_dir state_level) ids w0 w'"
    using loop_ids by (simp only: for_each_combined)
  have un: "files w' q = files w q"
    if nq: "q \<notin> (\<lambda>i. path_join out_dir (i @ ''.proto'')) ` set ids" for q
  proof -
    have "files w' q = files w0 q"
      using st
    proof (rule stepwise_unchanged_elsewhere [where P = "\<lambda>i. {path_join out_dir (i @ ''.proto'')}"])
      fix x s s' q'
      assume "combined_step c lab_dir wav_dir out_dir state_level x s s'"
        and "q' \<notin> {path_join out_dir (x @ ''.proto'')}"
      then show "files s' q' = files s q'"
        unfolding combined_step_def by (elim exE conjE) simp
    next
      show "q \<notin> (\<Union>x \<in> set ids. {path_join out_dir (x @ ''.proto'')})"
        using nq by auto
    qed
    with f show ?thesis by simp
  qed
  show ?thesis
    using p g1 g2 f t st un unfolding v v' by (intro exI conjI allI impI)
qed

lemma process_files_progress:
  assumes "id_list = Some p"
    and "get_file_ids lab_dir id_list w = (Inr (PyList ids), w1)"
    and "get_file_ids wav_dir id_list w1 = (Inr (PyList ids), w0)"
    and "stepwise (combined_step c lab_dir wav_dir out_dir state_level) ids w0 w'"
  shows "process_files c lab_dir wav_dir id_list out_dir state_level w = (Inr (), w')"
proof -
  from assms(4) have "for_each (process_files_body c lab_dir wav_dir out_dir state_level) ids w0 = (Inr (), w')"
    by (simp only: for_each_combined)
  with assms(2,3) show ?thesis
    by (simp add: process_files_def)
qed

text \<open>
  C1. A run of combined mode ends without error in the world \<open>w'\<close> exactly when there
  is an id list, both resolutions give its list \<open>ids\<close> (the validated sequence), and
  from there the world can move by one combined step per id, in order, to \<open>w'\<close>:
  for every id the label loaded from \<open>{lab_dir}/{id}.lab\<close>, the waveform from
  \<open>{wav_dir}/{id}.wav\<close>, and the one file \<open>{out_dir}/{id}.proto\<close> written with a
  record of exactly the fields lab, duration, f0, mgc and bap, holding the results of
  binarise(''), count_frames() and extract_features(). So the run succeeds whenever
  every id's step can be made, however many ids there are, and then every id has its
  record. Up to the first step nothing was loaded or written, and no file other than
  these records differs from the initial disk.
\<close>

theorem process_files_one_record_per_id:
  "(process_files c lab_dir wav_dir id_list out_dir state_level w = (Inr (), w') \<longleftrightarrow>
      (\<exists>p ids w1 w0.
         id_list = Some p \<and>
         get_file_ids lab_dir id_list w = (Inr (PyList ids), w1) \<and>
         get_file_ids wav_dir id_list w1 = (Inr (PyList ids), w0) \<and>
         stepwise (combined_step c lab_dir wav_dir out_dir state_level) ids w0 w')) \<and>
   (process_files c lab_dir wav_dir id_list out_dir state_level w = (Inr (), w') \<longrightarrow>
      (\<exists>p ids w1 w0.
         id_list = Some p \<and>
         get_file_ids lab_dir id_list w = (Inr (PyList ids), w1) \<and>
         get_file_ids wav_dir id_list w1 = (Inr (PyList ids), w0) \<and>
         files w0 = files w \<and>
         trace w0 = trace w @ [EvLoadTxt p, EvLoadTxt p] \<and>
         stepwise (combined_step c lab_dir wav_dir out_dir state_level) ids w0 w' \<and>
         (\<forall>q. q \<notin> (\<lambda>i. path_join out_dir (i @ ''.proto'')) ` set ids \<longrightarrow> files w' q = files w q)))"
proof (intro conjI iffI impI)
  assume "process_files c lab_dir wav_dir id_list out_dir state_level w = (Inr (), w')"
  then have "\<exists>p ids w1 w0.
         id_list = Some p \<and>
         get_file_ids lab_dir id_list w = (Inr (PyList ids), w1) \<and>
         get_file_ids wav_dir id_list w1 = (Inr (PyList ids), w0) \<and>
         files w0 = files w \<and>
         trace w0 = trace w @ [EvLoadTxt p, EvLoadTxt p] \<and>
         stepwise (combined_step c lab_dir wav_dir out_dir state_level) ids w0 w' \<and>
         (\<forall>q. q \<notin> (\<lambda>i. path_join out_dir (i @ ''.proto'')) ` set ids \<longrightarrow> files w' q = files w q)"
    by (rule process_files_ok)
  then show "\<exists>p ids w1 w0.
         id_list = Some p \<and>
         get_file_ids lab_dir id_list w = (Inr (PyList ids), w1) \<and>
         get_file_ids wav_dir id_list w1 = (Inr (PyList ids), w0) \<and>
         stepwise (combined_step c lab_dir wav_dir out_dir state_level) ids w0 w'"
    by blast
next
  assume "\<exists>p ids w1 w0.
         id_list = Some p \<and>
         get_file_ids lab_dir id_list w = (Inr (PyList ids), w1) \<and>
         get_file_ids wav_dir id_list w1 = (Inr (PyList ids), w0) \<and>
         stepwise (combined_step c lab_dir wav_dir out_dir state_level) ids w0 w'"
  then show "process_files c lab_dir wav_dir id_list out_dir state_level w = (Inr (), w')"
    by (elim exE conjE) (rule process_files_progress)
next
  assume "process_files c lab_dir wav_dir id_list out_dir state_level w = (Inr (), w')"
  then show "\<exists>p ids w1 w0.
         id_list = Some p \<and>
         get_file_ids lab_dir id_list w = (Inr (PyList ids), w1) \<and>
         get_file_ids wav_dir id_list w1 = (Inr (PyList ids), w0) \<and>
         files w0 = files w \<and>
         trace w0 = trace w @ [EvLoadTxt p, EvLoadTxt p] \<and>
         stepwise (combined_step c lab_dir wav_dir out_dir state_level) ids w0 w' \<and>
         (\<forall>q. q \<notin> (\<lambda>i. path_join out_dir (i @ ''.proto'')) ` set ids \<longrightarrow> files w' q = files w q)"
    by (rule process_files_ok)
qed

theorem process_files_one_record_per_id_witness:
  "fst (process_files c_demo ''mix'' ''mix'' (Some ''ab.txt'') ''out'' False w_pair) = Inr () \<and>
   (\<exists>w1 w0. get_file_ids ''mix'' (Some ''ab.txt'') w_pair = (Inr (PyList [''a'', ''b'']), w1) \<and>
      stepwise (combined_step c_demo ''mix'' ''mix'' ''out'' False) [''a'', ''b''] w0
        (snd (process_files c_demo ''mix'' ''mix'' (Some ''ab.txt'') ''out'' False w_pair))) \<and>
   files (snd (process_files c_demo ''mix'' ''mix'' (Some ''ab.txt'') ''out'' False w_pair)) ''out/a.proto''
     = Some ''lab=x;duration=|;f0=u;mgc=u;bap=u;'' \<and>
   files (snd (process_files c_demo ''mix'' ''mix'' (Some ''ab.txt'') ''out'' False w_pair)) ''out/b.proto''
     = Some ''lab=yz;duration=||;f0=vw;mgc=vw;bap=vw;''"
proof -
  let ?run = "process_files c_demo ''mix'' ''mix'' (Some ''ab.txt'') ''out'' False w_pair"
  have f: "fst ?run = Inr ()"
    by (simp add: run_defs)
  then have h: "?run = (Inr (), snd ?run)"
    by (rule pair_of_fst)
  have g: "fst (get_file_ids ''mix'' (Some ''ab.txt'') w_pair) = Inr (PyList [''a'', ''b''])"
    by (simp add: run_defs)
  have c: "files (snd ?run) ''out/a.proto'' = Some ''lab=x;duration=|;f0=u;mgc=u;bap=u;''"
    "files (snd ?run) ''out/b.proto'' = Some ''lab=yz;duration=||;f0=vw;mgc=vw;bap=vw;''"
    by (simp_all add: run_defs numeral_2_eq_2)
  from process_files_one_record_per_id [THEN conjunct1, THEN iffD1, OF h]
  obtain ids w1 w0 where
    g1: "get_file_ids ''mix'' (Some ''ab.txt'') w_pair = (Inr (PyList ids), w1)"
    and st: "stepwise (combined_step c_demo ''mix'' ''mix'' ''out'' False) ids w0 (snd ?run)"
    by blast
  from g g1 have "ids = [''a'', ''b'']" by simp
  with g1 st have "\<exists>w1 w0. get_file_ids ''mix'' (Some ''ab.txt'') w_pair = (Inr (PyList [''a'', ''b'']), w1) \<and>
      stepwise (combined_step c_demo ''mix'' ''mix'' ''out'' False) [''a'', ''b''] w0 (snd ?run)"
    by blast
  with f c show ?thesis by blast
qed

lemma process_lab_files_ok:
  assumes run: "process_lab_files c lab_dir id_list out_dir state_level w = (Inr (), w')"
  shows "\<exists>v w0.
           get_file_ids lab_dir id_list w = (Inr v, w0) \<and>
           files w0 = files w \<and>
           stepwise (label_only_step c lab_dir out_dir state_level) (iter v) w0 w' \<and>
           (\<forall>q. q \<notin> (\<Union>i \<in> set (iter v). {path_join out_dir (i @ ''.dur''), path_join out_dir (i @ ''.lab'')}) \<longrightarrow>
              files w' q = files w q)"
proof -
  obtain r1 w0 where g': "get_file_ids lab_dir id_list w = (r1, w0)"
    by (cases "get_file_ids lab_dir id_list w")
  with run obtain v where g: "get_file_ids lab_dir id_list w = (Inr v, w0)"
    by (cases r1) (simp_all add: process_lab_files_def)
  with run have loop:
    "for_each (process_lab_files_body c lab_dir out_dir state_level) (iter v) w0 = (Inr (), w')"
    by (simp add: process_lab_files_def)
  from g have f: "files w0 = files w" by (simp add: get_file_ids_files)
  have st: "stepwise (label_only_step c lab_dir out_dir state_level) (iter v) w0 w'"
    using loop by (simp only: for_each_label_only)
  have un: "files w' q = files w q"
    if nq: "q \<notin> (\<Union>i \<in> set (iter v). {path_join out_dir (i @ ''.dur''), path_join out_dir (i @ ''.lab'')})" for q
  proof -
    have "files w' q = files w0 q"
      using st
    proof (rule stepwise_unchanged_elsewhere
        [where P = "\<lambda>i. {path_join out_dir (i @ ''.dur''), path_join out_dir (i @ ''.lab'')}"])
      fix x s s' q'
      assume "label_only_step c lab_dir out_dir state_level x s s'"
        and "q' \<notin> {path_join out_dir (x @ ''.dur''), path_join out_dir (x @ ''.lab'')}"
      then show "files s' q' = files s q'"
        unfolding label_only_step_def by (elim exE conjE) simp
    next
      show "q \<notin> (\<Union>i \<in> set (iter v). {path_join out_dir (i @ ''.dur''), path_join out_dir (i @ ''.lab'')})"
        using nq .
    qed
    with f show ?thesis by simp
  qed
  show ?thesis
    using g f st un by (intro exI conjI allI impI)
qed

lemma process_lab_files_progress:
  assumes "get_file_ids lab_dir id_list w = (Inr v, w0)"
    and "stepwise (label_only_step c lab_dir out_dir state_level) (iter v) w0 w'"
  shows "process_lab_files c lab_dir id_list out_dir state_level w = (Inr (), w')"
proof -
  from assms(2) have "for_each (process_lab_files_body c lab_dir out_dir state_level) (iter v) w0 = (Inr (), w')"
    by (simp only: for_each_label_only)
  with assms(1) show ?thesis
    by (simp add: process_lab_files_def)
qed

text \<open>
  C6. A run of label-only mode ends without error in the world \<open>w'\<close> exactly when the
  ids can be resolved (from the id list or from the directory listing) and from there
  the world can move by one label-only step per id, in order, to \<open>w'\<close>: for every id
  the label loaded, then the file \<open>{out_dir}/{id}.dur\<close> written with the frame count
  as text, then the file \<open>{out_dir}/{id}.lab\<close> written with the binarised label as a
  binary blob. So the run succeeds whenever every id's step can be made, however many
  ids there are, and then every id has its two files. No file other than these two
  per id differs from the initial disk.
\<close>

theorem process_lab_files_two_files_per_id:
  "(process_lab_files c lab_dir id_list out_dir state_level w = (Inr (), w') \<longleftrightarrow>
      (\<exists>v w0.
         get_file_ids lab_dir id_list w = (Inr v, w0) \<and>
         stepwise (label_only_step c lab_dir out_dir state_level) (iter v) w0 w')) \<and>
   (process_lab_files c lab_dir id_list out_dir state_level w = (Inr (), w') \<longrightarrow>
      (\<exists>v w0.
         get_file_ids lab_dir id_list w = (Inr v, w0) \<and>
         files w0 = files w \<and>
         stepwise (label_only_step c lab_dir out_dir state_level) (iter v) w0 w' \<and>
         (\<forall>q. q \<notin> (\<Union>i \<in> set (iter v). {path_join out_dir (i @ ''.dur''), path_join out_dir (i @ ''.lab'')}) \<longrightarrow>
            files w' q = files w q)))"
proof (intro conjI iffI impI)
  assume "process_lab_files c lab_dir id_list out_dir state_level w = (Inr (), w')"
  then have "\<exists>v w0.
         get_file_ids lab_dir id_list w = (Inr v, w0) \<and>
         files w0 = files w \<and>
         stepwise (label_only_step c lab_dir out_dir state_level) (iter v) w0 w' \<and>
         (\<forall>q. q \<notin> (\<Union>i \<in> set (iter v). {path_join out_dir (i @ ''.dur''), path_join out_dir (i @ ''.lab'')}) \<longrightarrow>
            files w' q = files w q)"
    by (rule process_lab_files_ok)
  then show "\<exists>v w0.
         get_file_ids lab_dir id_list w = (Inr v, w0) \<and>
         stepwise (label_only_step c lab_dir out_dir state_level) (iter v) w0 w'"
    by blast
next
  assume "\<exists>v w0.
         get_file_ids lab_dir id_list w = (Inr v, w0) \<and>
         stepwise (label_only_step c lab_dir out_dir state_level) (iter v) w0 w'"
  then show "process_lab_files c lab_dir id_list out_dir state_level w = (Inr (), w')"
    by (elim exE conjE) (rule process_lab_files_progress)
next
  assume "process_lab_files c lab_dir id_list out_dir state_level w = (Inr (), w')"
  then show "\<exists>v w0.
         get_file_ids lab_dir id_list w = (Inr v, w0) \<and>
         files w0 = files w \<and>
         stepwise (label_only_step c lab_dir out_dir state_level) (iter v) w0 w' \<and>
         (\<forall>q. q \<notin> (\<Union>i \<in> set (iter v). {path_join out_dir (i @ ''.dur''), path_join out_dir (i @ ''.lab'')}) \<longrightarrow>
            files w' q = files w q)"
    by (rule process_lab_files_ok)
qed

theorem process_lab_files_two_files_per_id_witness:
  "fst (process_lab_files c_demo ''mix'' None ''out'' False w_pair) = Inr () \<and>
   (\<exists>n w0. get_file_ids ''mix'' None w_pair = (Inr (MapObj n [''a'', ''b'']), w0) \<and>
      stepwise (label_only_step c_demo ''mix'' ''out'' False) [''a'', ''b''] w0
        (snd (process_lab_files c_demo ''mix'' None ''out'' False w_pair))) \<and>
   files (snd (process_lab_files c_demo ''mix'' None ''out'' False w_pair)) ''out/a.dur'' = Some ''|'' \<and>
   files (snd (process_lab_files c_demo ''mix'' None ''out'' False w_pair)) ''out/a.lab'' = Some ''x'' \<and>
   files (snd (process_lab_files c_demo ''mix'' None ''out'' False w_pair)) ''out/b.dur'' = Some ''||'' \<and>
   files (snd (process_lab_files c_demo ''mix'' None ''out'' False w_pair)) ''out/b.lab'' = Some ''yz'' \<and>
   fst (process_lab_files c_demo ''mix'' (Some ''ab.txt'') ''out'' False w_pair) = Inr () \<and>
   files (snd (process_lab_files c_demo ''mix'' (Some ''ab.txt'') ''out'' False w_pair)) ''out/a.dur'' = Some ''|'' \<and>
   files (snd (process_lab_files c_demo ''mix'' (Some ''ab.txt'') ''out'' False w_pair)) ''out/b.lab'' = Some ''yz''"
proof -
  let ?run = "process_lab_files c_demo ''mix'' None ''out'' False w_pair"
  let ?run2 = "process_lab_files c_demo ''mix'' (Some ''ab.txt'') ''out'' False w_pair"
  have f: "fst ?run = Inr ()"
    by (simp add: run_defs)
  then have h: "?run = (Inr (), snd ?run)"
    by (rule pair_of_fst)
  have g: "fst (get_file_ids ''mix'' None w_pair) = Inr (MapObj 1 [''a'', ''b''])"
    by (simp add: run_defs)
  have c: "files (snd ?run) ''out/a.dur'' = Some ''|''" "files (snd ?run) ''out/a.lab'' = Some ''x''"
    "files (snd ?run) ''out/b.dur'' = Some ''||''" "files (snd ?run) ''out/b.lab'' = Some ''yz''"
    by (simp_all add: run_defs numeral_2_eq_2)
  have f2: "fst ?run2 = Inr ()"
    by (simp add: run_defs)
  have c2: "files (snd ?run2) ''out/a.dur'' = Some ''|''" "files (snd ?run2) ''out/b.lab'' = Some ''yz''"
    by (simp_all add: run_defs numeral_2_eq_2)
  from process_lab_files_two_files_per_id [THEN conjunct1, THEN iffD1, OF h]
  obtain v w0 where
    g1: "get_file_ids ''mix'' None w_pair = (Inr v, w0)"
    and st: "stepwise (label_only_step c_demo ''mix'' ''out'' False) (iter v) w0 (snd ?run)"
    by blast
  from g g1 have "v = MapObj 1 [''a'', ''b'']" by simp
  with g1 st have "\<exists>n w0. get_file_ids ''mix'' None w_pair = (Inr (MapObj n [''a'', ''b'']), w0) \<and>
      stepwise (label_only_step c_demo ''mix'' ''out'' False) [''a'', ''b''] w0 (snd ?run)"
    by auto
  with f c f2 c2 show ?thesis by blast
qed

lemma process_wav_files_ok:
  assumes run: "process_wav_files c wav_dir id_list out_dir w = (Inr (), w')"
  shows "\<exists>v w0.
           get_file_ids wav_dir id_list w = (Inr v, w0) \<and>
           files w0 = files w \<and>
           stepwise (wav_only_step c wav_dir out_dir) (iter v) w0 w' \<and>
           (\<forall>q. q \<notin> (\<Union>i \<in> set (iter v). {path_join out_dir (i @ ''.f0''), path_join out_dir (i @ ''.mgc''),
                                             path_join out_dir (i @ ''.bap'')}) \<longrightarrow>
              files w' q = files w q) \<and>
           (\<forall>q. files w' q \<noteq> files w q \<longrightarrow>
              \<not> endswith q ''.proto'' \<and> \<not> endswith q ''.dur'' \<and> \<not> endswith q ''.lab'')"
proof -
  let ?P = "\<lambda>i. {path_join out_dir (i @ ''.f0''), path_join out_dir (i @ ''.mgc''),
                   path_join out_dir (i @ ''.bap'')}"
  obtain r1 w0 where g': "get_file_ids wav_dir id_list w = (r1, w0)"
    by (cases "get_file_ids wav_dir id_list w")
  with run obtain v where g: "get_file_ids wav_dir id_list w = (Inr v, w0)"
    by (cases r1) (simp_all add: process_wav_files_def)
  with run have loop:
    "for_each (process_wav_files_body c wav_dir out_dir) (iter v) w0 = (Inr (), w')"
    by (simp add: process_wav_files_def)
  from g have f: "files w0 = files w" by (simp add: get_file_ids_files)
  have st: "stepwise (wav_only_step c wav_dir out_dir) (iter v) w0 w'"
    using loop by (simp only: for_each_wav_only)
  have un: "files w' q = files w q" if nq: "q \<notin> (\<Union>i \<in> set (iter v). ?P i)" for q
  proof -
    have "files w' q = files w0 q"
      using st
    proof (rule stepwise_unchanged_elsewhere [where P = ?P])
      fix x s s' q'
      assume "wav_only_step c wav_dir out_dir x s s'" and "q' \<notin> ?P x"
      then show "files s' q' = files s q'"
        unfolding wav_only_step_def by (elim exE conjE) simp
    next
      show "q \<notin> (\<Union>i \<in> set (iter v). ?P i)"
        using nq .
    qed
    with f show ?thesis by simp
  qed
  have no: "\<not> endswith q ''.proto'' \<and> \<not> endswith q ''.dur'' \<and> \<not> endswith q ''.lab''"
    if ch: "files w' q \<noteq> files w q" for q
  proof -
    from ch un have "q \<in> (\<Union>i \<in> set (iter v). ?P i)" by blast
    then obtain i where "q \<in> ?P i" by blast
    then have "endswith q ''.f0'' \<or> endswith q ''.mgc'' \<or> endswith q ''.bap''"
      using endswith_path_join [of out_dir i "''.f0''"] endswith_path_join [of out_dir i "''.mgc''"]
        endswith_path_join [of out_dir i "''.bap''"]
      by blast
    then show ?thesis by (rule feature_suffix_only)
  qed
  from un have un': "\<forall>q. q \<notin> (\<Union>i \<in> set (iter v). ?P i) \<longrightarrow> files w' q = files w q"
    by blast
  from no have no': "\<forall>q. files w' q \<noteq> files w q \<longrightarrow>
      \<not> endswith q ''.proto'' \<and> \<not> endswith q ''.dur'' \<and> \<not> endswith q ''.lab''"
    by blast
  show ?thesis
    using g f st un' no' by (intro exI conjI)
qed

lemma process_wav_files_progress:
  assumes "get_file_ids wav_dir id_list w = (Inr v, w0)"
    and "stepwise (wav_only_step c wav_dir out_dir) (iter v) w0 w'"
  shows "process_wav_files c wav_dir id_list out_dir w = (Inr (), w')"
proof -
  from assms(2) have "for_each (process_wav_files_body c wav_dir out_dir) (iter v) w0 = (Inr (), w')"
    by (simp only: for_each_wav_only)
  with assms(1) show ?thesis
    by (simp add: process_wav_files_def)
qed

text \<open>
  C7. A run of waveform-only mode ends without error in the world \<open>w'\<close> exactly when
  the ids can be resolved (from the id list or from the directory listing) and from
  there the world can move by one waveform-only step per id, in order, to \<open>w'\<close>: for
  every id the waveform loaded, then the files \<open>{out_dir}/{id}.f0\<close>,
  \<open>{out_dir}/{id}.mgc\<close> and \<open>{out_dir}/{id}.bap\<close> written with the three sequences of
  extract_features() as binary blobs. So the run succeeds whenever every id's step can
  be made, however many ids there are, and then every id has its three files. No file
  other than these three per id differs from the initial disk; in particular no file
  whose name ends in \<open>.proto\<close>, \<open>.dur\<close> or \<open>.lab\<close> was created or changed.
\<close>

theorem process_wav_files_three_files_per_id:
  "(process_wav_files c wav_dir id_list out_dir w = (Inr (), w') \<longleftrightarrow>
      (\<exists>v w0.
         get_file_ids wav_dir id_list w = (Inr v, w0) \<and>
         stepwise (wav_only_step c wav_dir out_dir) (iter v) w0 w')) \<and>
   (process_wav_files c wav_dir id_list out_dir w = (Inr (), w') \<longrightarrow>
      (\<exists>v w0.
         get_file_ids wav_dir id_list w = (Inr v, w0) \<and>
         files w0 = files w \<and>
         stepwise (wav_only_step c wav_dir out_dir) (iter v) w0 w' \<and>
         (\<forall>q. q \<notin> (\<Union>i \<in> set (iter v). {path_join out_dir (i @ ''.f0''), path_join out_dir (i @ ''.mgc''),
                                           path_join out_dir (i @ ''.bap'')}) \<longrightarrow>
            files w' q = files w q) \<and>
         (\<forall>q. files w' q \<noteq> files w q \<longrightarrow>
            \<not> endswith q ''.proto'' \<and> \<not> endswith q ''.dur'' \<and> \<not> endswith q ''.lab'')))"
proof (intro conjI iffI impI)
  assume "process_wav_files c wav_dir id_list out_dir w = (Inr (), w')"
  then have "\<exists>v w0.
         get_file_ids wav_dir id_list w = (Inr v, w0) \<and>
         files w0 = files w \<and>
         stepwise (wav_only_step c wav_dir out_dir) (iter v) w0 w' \<and>
         (\<forall>q. q \<notin> (\<Union>i \<in> set (iter v). {path_join out_dir (i @ ''.f0''), path_join out_dir (i @ ''.mgc''),
                                           path_join out_dir (i @ ''.bap'')}) \<longrightarrow>
            files w' q = files w q) \<and>
         (\<forall>q. files w' q \<noteq> files w q \<longrightarrow>
            \<not> endswith q ''.proto'' \<and> \<not> endswith q ''.dur'' \<and> \<not> endswith q ''.lab'')"
    by (rule process_wav_files_ok)
  then show "\<exists>v w0.
         get_file_ids wav_dir id_list w = (Inr v, w0) \<and>
         stepwise (wav_only_step c wav_dir out_dir) (iter v) w0 w'"
    by blast
next
  assume "\<exists>v w0.
         get_file_ids wav_dir id_list w = (Inr v, w0) \<and>
         stepwise (wav_only_step c wav_dir out_dir) (iter v) w0 w'"
  then show "process_wav_files c wav_dir id_list out_dir w = (Inr (), w')"
    by (elim exE conjE) (rule process_wav_files_progress)
next
  assume "process_wav_files c wav_dir id_list out_dir w = (Inr (), w')"
  then show "\<exists>v w0.
         get_file_ids wav_dir id_list w = (Inr v, w0) \<and>
         files w0 = files w \<and>
         stepwise (wav_only_step c wav_dir out_dir) (iter v) w0 w' \<and>
         (\<forall>q. q \<notin> (\<Union>i \<in> set (iter v). {path_join out_dir (i @ ''.f0''), path_join out_dir (i @ ''.mgc''),
                                           path_join out_dir (i @ ''.bap'')}) \<longrightarrow>
            files w' q = files w q) \<and>
         (\<forall>q. files w' q \<noteq> files w q \<longrightarrow>
            \<not> endswith q ''.proto'' \<and> \<not> endswith q ''.dur'' \<and> \<not> endswith q ''.lab'')"
    by (rule process_wav_files_ok)
qed

theorem process_wav_files_three_files_per_id_witness:
  "fst (process_wav_files c_demo ''mix'' None ''out'' w_pair) = Inr () \<and>
   (\<exists>n w0. get_file_ids ''mix'' None w_pair = (Inr (MapObj n [''a'', ''b'']), w0) \<and>
      stepwise (wav_only_step c_demo ''mix'' ''out'') [''a'', ''b''] w0
        (snd (process_wav_files c_demo ''mix'' None ''out'' w_pair))) \<and>
   files (snd (process_wav_files c_demo ''mix'' None ''out'' w_pair)) ''out/a.f0'' = Some ''u'' \<and>
   files (snd (process_wav_files c_demo ''mix'' None ''out'' w_pair)) ''out/a.mgc'' = Some ''u'' \<and>
   files (snd (process_wav_files c_demo ''mix'' None ''out'' w_pair)) ''out/a.bap'' = Some ''u'' \<and>
   files (snd (process_wav_files c_demo ''mix'' None ''out'' w_pair)) ''out/b.f0'' = Some ''vw'' \<and>
   files (snd (process_wav_files c_demo ''mix'' None ''out'' w_pair)) ''out/b.mgc'' = Some ''vw'' \<and>
   files (snd (process_wav_files c_demo ''mix'' None ''out'' w_pair)) ''out/b.bap'' = Some ''vw'' \<and>
   files (snd (process_wav_files c_demo ''mix'' None ''out'' w_pair)) ''out/a.proto'' = None \<and>
   fst (process_wav_files c_demo ''mix'' (Some ''ab.txt'') ''out'' w_pair) = Inr () \<and>
   files (snd (process_wav_files c_demo ''mix'' (Some ''ab.txt'') ''out'' w_pair)) ''out/a.f0'' = Some ''u'' \<and>
   files (snd (process_wav_files c_demo ''mix'' (Some ''ab.txt'') ''out'' w_pair)) ''out/b.bap'' = Some ''vw''"
proof -
  let ?run = "process_wav_files c_demo ''mix'' None ''out'' w_pair"
  let ?run2 = "process_wav_files c_demo ''mix'' (Some ''ab.txt'') ''out'' w_pair"
  have f: "fst ?run = Inr ()"
    by (simp add: run_defs)
  then have h: "?run = (Inr (), snd ?run)"
    by (rule pair_of_fst)
  have g: "fst (get_file_ids ''mix'' None w_pair) = Inr (MapObj 1 [''a'', ''b''])"
    by (simp add: run_defs)
  have c: "files (snd ?run) ''out/a.f0'' = Some ''u''" "files (snd ?run) ''out/a.mgc'' = Some ''u''"
    "files (snd ?run) ''out/a.bap'' = Some ''u''" "files (snd ?run) ''out/b.f0'' = Some ''vw''"
    "files (snd ?run) ''out/b.mgc'' = Some ''vw''" "files (snd ?run) ''out/b.bap'' = Some ''vw''"
    "files (snd ?run) ''out/a.proto'' = None"
    by (simp_all add: run_defs)
  have f2: "fst ?run2 = Inr ()"
    by (simp add: run_defs)
  have c2: "files (snd ?run2) ''out/a.f0'' = Some ''u''" "files (snd ?run2) ''out/b.bap'' = Some ''vw''"
    by (simp_all add: run_defs)
  from process_wav_files_three_files_per_id [THEN conjunct1, THEN iffD1, OF h]
  obtain v w0 where
    g1: "get_file_ids ''mix'' None w_pair = (Inr v, w0)"
    and st: "stepwise (wav_only_step c_demo ''mix'' ''out'') (iter v) w0 (snd ?run)"
    by blast
  from g g1 have "v = MapObj 1 [''a'', ''b'']" by simp
  with g1 st have "\<exists>n w0. get_file_ids ''mix'' None w_pair = (Inr (MapObj n [''a'', ''b'']), w0) \<and>
      stepwise (wav_only_step c_demo ''mix'' ''out'') [''a'', ''b''] w0 (snd ?run)"
    by auto
  with f c f2 c2 show ?thesis by blast
qed

subsection \<open>The dispatcher\<close>

text \<open>
  C8. An argument is present when it was given and is not the empty string, which is
  what the tests \<^verbatim>\<open>if args.lab_dir and args.wav_dir\<close>, \<^verbatim>\<open>elif args.lab_dir\<close> and
  \<^verbatim>\<open>elif args.wav_dir\<close> check. The whole run is then the run of one mode: combined
  mode when both directories are present, label-only mode when only the label
  directory is, waveform-only mode when only the waveform directory is. When neither
  is present the run ends without error and leaves the world as it was: no call is
  made and no file is written.
\<close>

theorem main_dispatch:
  "(args_lab_dir a = Some l \<and> l \<noteq> [] \<and> args_wav_dir a = Some v \<and> v \<noteq> [] \<longrightarrow>
      main c a w = process_files c l v (args_id_list a) (args_out_dir a) (args_state_level a) w) \<and>
   (args_lab_dir a = Some l \<and> l \<noteq> [] \<and> \<not> truthy (args_wav_dir a) \<longrightarrow>
      main c a w = process_lab_files c l (args_id_list a) (args_out_dir a) (args_state_level a) w) \<and>
   (\<not> truthy (args_lab_dir a) \<and> args_wav_dir a = Some v \<and> v \<noteq> [] \<longrightarrow>
      main c a w = process_wav_files c v (args_id_list a) (args_out_dir a) w) \<and>
   (\<not> truthy (args_lab_dir a) \<and> \<not> truthy (args_wav_dir a) \<longrightarrow>
      main c a w = (Inr (), w))"
  by (simp add: main_def truthy_def)

theorem main_dispatch_witness:
  "main c_demo (args_demo (Some ''labs'') (Some ''wavs'')) w_demo =
     process_files c_demo ''labs'' ''wavs'' (Some ''ids.txt'') ''out'' False w_demo \<and>
   main c_demo (args_demo (Some ''labs'') None) w_demo =
     process_lab_files c_demo ''labs'' (Some ''ids.txt'') ''out'' False w_demo \<and>
   main c_demo (args_demo None (Some ''wavs'')) w_demo =
     process_wav_files c_demo ''wavs'' (Some ''ids.txt'') ''out'' w_demo \<and>
   main c_demo (args_demo None None) w_demo = (Inr (), w_demo)"
proof -
  have a: "args_lab_dir (args_demo x y) = x" "args_wav_dir (args_demo x y) = y"
    "args_id_list (args_demo x y) = Some ''ids.txt''" "args_out_dir (args_demo x y) = ''out''"
    "args_state_level (args_demo x y) = False" for x y
    by (simp_all add: args_demo_def)
  have t: "\<not> truthy None" "''labs'' \<noteq> []" "''wavs'' \<noteq> []"
    by (simp_all add: truthy_def)
  from main_dispatch [of "args_demo (Some ''labs'') (Some ''wavs'')" "''labs''" "''wavs''" c_demo w_demo]
  have 1: "main c_demo (args_demo (Some ''labs'') (Some ''wavs'')) w_demo =
     process_files c_demo ''labs'' ''wavs'' (Some ''ids.txt'') ''out'' False w_demo"
    using t by (simp only: a) simp
  from main_dispatch [of "args_demo (Some ''labs'') None" "''labs''" v c_demo w_demo]
  have 2: "main c_demo (args_demo (Some ''labs'') None) w_demo =
     process_lab_files c_demo ''labs'' (Some ''ids.txt'') ''out'' False w_demo"
    using t by (simp only: a) simp
  from main_dispatch [of "args_demo None (Some ''wavs'')" l "''wavs''" c_demo w_demo]
  have 3: "main c_demo (args_demo None (Some ''wavs'')) w_demo =
     process_wav_files c_demo ''wavs'' (Some ''ids.txt'') ''out'' w_demo"
    using t by (simp only: a) simp
  from main_dispatch [of "args_demo None None" l v c_demo w_demo]
  have 4: "main c_demo (args_demo None None) w_demo = (Inr (), w_demo)"
    using t by (simp only: a) simp
  from 1 2 3 4 show ?thesis by blast
qed

subsection \<open>Failure of one id\<close>









end
